theory Spec2Isabelle
  imports Main
begin

section \<open>Strings of the entity-list controllers\<close>

text \<open>
  A JavaScript string is modelled as a \<^typ>\<open>string\<close>: each \<^typ>\<open>char\<close> is one UTF-16 code
  unit below 256 (Basic Latin and Latin-1). Strings with code units from 256 on are outside
  the model.
\<close>

definition code :: "char \<Rightarrow> nat" where
  "code c = of_char c"

text \<open>
  The class \<^verbatim>\<open>\s\<close> of a regular expression, which is also what \<^verbatim>\<open>String.prototype.trim\<close>
  and \<^verbatim>\<open>parseInt\<close> strip: tab, line feed, vertical tab, form feed, carriage return, space
  and the no-break space.
\<close>

definition is_space :: "char \<Rightarrow> bool" where
  "is_space c = (code c \<in> {9, 10, 11, 12, 13, 32, 160})"

definition is_upper :: "char \<Rightarrow> bool" where
  "is_upper c = (65 \<le> code c \<and> code c \<le> 90)"

definition is_digit :: "char \<Rightarrow> bool" where
  "is_digit c = (48 \<le> code c \<and> code c \<le> 57)"

text \<open>
  \<^verbatim>\<open>String.prototype.toUpperCase\<close>, one code unit at a time: a-z and the Latin-1 small
  letters go to their capitals, the sharp s to \<^verbatim>\<open>SS\<close>. The micro sign and the y with
  diaeresis, whose capitals lie beyond code unit 255, stay as they are.
\<close>

definition upper_char :: "char \<Rightarrow> string" where
  "upper_char c =
     (if 97 \<le> code c \<and> code c \<le> 122 then [char_of (code c - 32)]
      else if code c = 223 then ''SS''
      else if 224 \<le> code c \<and> code c \<le> 254 \<and> code c \<noteq> 247 then [char_of (code c - 32)]
      else [c])"

definition toUpperCase :: "string \<Rightarrow> string" where
  "toUpperCase s = concat (map upper_char s)"

definition trim :: "string \<Rightarrow> string" where
  "trim s = rev (dropWhile is_space (rev (dropWhile is_space s)))"

text \<open>\<^verbatim>\<open>String.prototype.includes\<close>: the needle occurs at some position of the string.\<close>

fun includes_str :: "string \<Rightarrow> string \<Rightarrow> bool" where
  "includes_str [] needle = (needle = [])"
| "includes_str (c # s) needle = (take (length needle) (c # s) = needle \<or> includes_str s needle)"

section \<open>Name patterns\<close>

text \<open>
  \<^verbatim>\<open>/^[A-Z\s]*$/\<close> of CompanyList, CountryList, CityList, DistrictList and LineTypeList, and
  \<^verbatim>\<open>/^[A-Z0-9\s-]*$/\<close> of LineList and MachineList. Without the \<^verbatim>\<open>m\<close> flag the anchors
  are the ends of the string, so the test is that every code unit is in the class.
\<close>

definition letters_spaces :: "string \<Rightarrow> bool" where
  "letters_spaces s = list_all (\<lambda>c. is_upper c \<or> is_space c) s"

definition letters_digits_spaces_hyphens :: "string \<Rightarrow> bool" where
  "letters_digits_spaces_hyphens s =
     list_all (\<lambda>c. is_upper c \<or> is_digit c \<or> is_space c \<or> c = CHR ''-'') s"

section \<open>Data model\<close>

text \<open>The eight entity-list controllers: one page component each.\<close>

datatype entity = Company | Country | City | District | LineType | Line | Machine | Kpi

text \<open>
  \<^verbatim>\<open>validateCompanyName\<close>, \<^verbatim>\<open>validateCountryName\<close>, \<^verbatim>\<open>validateCityName\<close>,
  \<^verbatim>\<open>validateDistrictName\<close>, \<^verbatim>\<open>validateLineTypeName\<close>, \<^verbatim>\<open>validateLineName\<close> and
  \<^verbatim>\<open>validateMachineName\<close>. KpiList has no such function and tests no pattern.
\<close>

fun validateName :: "entity \<Rightarrow> string \<Rightarrow> bool" where
  "validateName Line nm = letters_digits_spaces_hyphens nm"
| "validateName Machine nm = letters_digits_spaces_hyphens nm"
| "validateName Kpi nm = True"
| "validateName e nm = letters_spaces nm"

text \<open>
  A row of a table. The record has the columns of all eight interfaces (\<^verbatim>\<open>Company\<close>,
  \<^verbatim>\<open>City\<close>, \<^verbatim>\<open>Line\<close>, \<^verbatim>\<open>Machine\<close>, \<^verbatim>\<open>KPI\<close>, ...); a table uses the columns of its own
  interface and leaves the others empty.
\<close>

record row =
  row_id :: string
  row_name :: string
  row_country_id :: string
  row_city_id :: string
  row_company_id :: string
  row_district_id :: string
  row_line_type_id :: string
  row_line_id :: string
  row_unit :: string
  row_order :: int
  row_created_at :: string
  row_created_by :: string
  row_updated_at :: "string option"
  row_updated_by :: "string option"

text \<open>The string columns by their name, as the filters \<^verbatim>\<open>eq\<close> and \<^verbatim>\<open>neq\<close> address them.\<close>

definition col :: "string \<Rightarrow> row \<Rightarrow> string" where
  "col c r =
     (if c = ''id'' then row_id r
      else if c = ''name'' then row_name r
      else if c = ''country_id'' then row_country_id r
      else if c = ''city_id'' then row_city_id r
      else if c = ''company_id'' then row_company_id r
      else if c = ''district_id'' then row_district_id r
      else if c = ''line_type_id'' then row_line_type_id r
      else if c = ''line_id'' then row_line_id r
      else if c = ''unit'' then row_unit r
      else if c = ''created_at'' then row_created_at r
      else if c = ''created_by'' then row_created_by r
      else [])"

text \<open>The form of the modal: the union of the eight \<^verbatim>\<open>formData\<close> objects.\<close>

record formData =
  f_name :: string
  f_country_id :: string
  f_city_id :: string
  f_company_id :: string
  f_district_id :: string
  f_line_type_id :: string
  f_line_id :: string
  f_unit :: string
  f_order :: int

definition initial_form :: formData where
  "initial_form = \<lparr>f_name = [], f_country_id = [], f_city_id = [], f_company_id = [],
     f_district_id = [], f_line_type_id = [], f_line_id = [], f_unit = [], f_order = 1000\<rparr>"

text \<open>\<^verbatim>\<open>ValidationErrors\<close> of MachineList: an absent key is \<^term>\<open>None\<close>.\<close>

record validationErrors =
  err_name :: "string option"
  err_order :: "string option"
  err_line :: "string option"

definition no_errors :: validationErrors where
  "no_errors = \<lparr>err_name = None, err_order = None, err_line = None\<rparr>"

record user =
  user_id :: string

text \<open>The error object of a rejected gateway call.\<close>

record pg_error =
  err_code :: string
  err_message :: string

datatype jsval = Str string | Num int

type_synonym payload = "(string \<times> jsval) list"

datatype dir = Asc | Desc

text \<open>
  What \<^verbatim>\<open>debouncedSearch\<close> sends: the table, the \<^verbatim>\<open>ilike\<close> pattern on \<^verbatim>\<open>name\<close> when there
  is one, the order and the inclusive range.
\<close>

record list_query =
  q_table :: entity
  q_ilike :: "string option"
  q_orderBy :: string
  q_ascending :: bool
  q_from :: int
  q_to :: int

text \<open>The answer to a list query: \<^verbatim>\<open>{ data, count, error }\<close>.\<close>

record list_reply =
  data :: "row list option"
  count :: "nat option"
  failure :: "pg_error option"

text \<open>
  The requests a controller sends to the gateway: the list query, the pre-check
  \<^verbatim>\<open>select('id').eq(...).neq('id', ...).maybeSingle()\<close> with its equality filters and
  the excluded id, \<^verbatim>\<open>insert\<close>, and \<^verbatim>\<open>update(...).eq('id', ...)\<close>.
\<close>

datatype request =
    ListRows list_query
  | PreCheck entity "(string \<times> string) list" "string option"
  | Insert entity payload
  | Update entity payload string

text \<open>
  The state of one controller: the React state of the component, and what its
  environment holds for it: the clock in milliseconds, the pending call of the debounced
  function (when it is due and what it will send), the list queries awaiting their answer,
  and the log of all requests sent so far. \<^verbatim>\<open>validationErrors\<close> and \<^verbatim>\<open>existingOrders\<close> are
  state of MachineList only.
\<close>

record controller =
  rows :: "row list"
  loading :: bool
  error :: "string option"
  success :: "string option"
  openDialog :: bool
  editing :: "row option"
  formData :: formData
  validationErrors :: validationErrors
  existingOrders :: "int list"
  searchTerm :: string
  page :: nat
  rowsPerPage :: nat
  totalCount :: nat
  orderBy :: string
  order :: dir
  now :: nat
  timer :: "(nat \<times> list_query) option"
  inflight :: "list_query list"
  requests :: "request list"

section \<open>Messages\<close>

definition noun :: "entity \<Rightarrow> string" where
  "noun e = (case e of Company \<Rightarrow> ''company'' | Country \<Rightarrow> ''country'' | City \<Rightarrow> ''city''
     | District \<Rightarrow> ''district'' | LineType \<Rightarrow> ''line type'' | Line \<Rightarrow> ''line''
     | Machine \<Rightarrow> ''machine'' | Kpi \<Rightarrow> ''KPI'')"

definition Noun :: "entity \<Rightarrow> string" where
  "Noun e = (case e of Company \<Rightarrow> ''Company'' | Country \<Rightarrow> ''Country'' | City \<Rightarrow> ''City''
     | District \<Rightarrow> ''District'' | LineType \<Rightarrow> ''Line type'' | Line \<Rightarrow> ''Line''
     | Machine \<Rightarrow> ''Machine'' | Kpi \<Rightarrow> ''KPI'')"

definition msg_login :: string where
  "msg_login = ''You must be logged in to perform this action''"

definition msg_allowed :: "entity \<Rightarrow> string" where
  "msg_allowed e =
     (if e = Line \<or> e = Machine
      then ''Only English letters (A-Z), numbers (0-9), spaces, and hyphens are allowed''
      else ''Only English letters (A-Z) and spaces are allowed'')"

definition msg_invalid :: "entity \<Rightarrow> string" where
  "msg_invalid e = ''Invalid '' @ noun e @ '' name format''"

definition msg_required :: "entity \<Rightarrow> string" where
  "msg_required e = (case e of City \<Rightarrow> ''Please select a country''
     | District \<Rightarrow> ''Please select a city'' | Line \<Rightarrow> ''All fields are required''
     | Kpi \<Rightarrow> ''Name and unit are required'' | _ \<Rightarrow> [])"

definition msg_exists :: "entity \<Rightarrow> string" where
  "msg_exists e = ''A '' @ noun e @ '' with this name already exists'' @
     (case e of City \<Rightarrow> '' in the selected country'' | District \<Rightarrow> '' in the selected city''
      | Line \<Rightarrow> '' in the selected company and district'' | _ \<Rightarrow> [])"

definition msg_failed :: "entity \<Rightarrow> string" where
  "msg_failed e = ''Failed to save '' @ noun e @ ''. Please try again.''"

definition msg_updated :: "entity \<Rightarrow> string" where
  "msg_updated e = Noun e @ '' updated successfully''"

definition msg_added :: "entity \<Rightarrow> string" where
  "msg_added e = Noun e @ '' added successfully''"

definition msg_order_range :: string where
  "msg_order_range = ''Order must be a 4-digit number (1000-9999)''"

definition msg_order_used :: string where
  "msg_order_used = ''This order number is already used in the selected production line''"

definition plural :: "entity \<Rightarrow> string" where
  "plural e = (case e of Company \<Rightarrow> ''companies'' | Country \<Rightarrow> ''countries''
     | City \<Rightarrow> ''cities'' | District \<Rightarrow> ''districts'' | LineType \<Rightarrow> ''line types''
     | Line \<Rightarrow> ''lines'' | Machine \<Rightarrow> ''machines'' | Kpi \<Rightarrow> ''KPIs'')"

definition msg_search :: "entity \<Rightarrow> string" where
  "msg_search e = ''Failed to search '' @ plural e"

section \<open>The remote data gateway\<close>

text \<open>
  Modelled from the spec: the remote data gateway, an external service with no code in
  the repository. Its pre-check answers \<^verbatim>\<open>maybeSingle\<close>: the row when exactly one row
  passes the filters, no data when none does, and no data (with an error the controllers
  do not read) when several do.
\<close>

definition matches :: "(string \<times> string) list \<Rightarrow> string option \<Rightarrow> row \<Rightarrow> bool" where
  "matches eqs neq r =
     (list_all (\<lambda>(c, v). col c r = v) eqs \<and> (case neq of None \<Rightarrow> True | Some i \<Rightarrow> row_id r \<noteq> i))"

definition maybeSingle :: "row list \<Rightarrow> (string \<times> string) list \<Rightarrow> string option \<Rightarrow> row option" where
  "maybeSingle tbl eqs neq = (case filter (matches eqs neq) tbl of [r] \<Rightarrow> Some r | _ \<Rightarrow> None)"

text \<open>
  Modelled from the spec: the filter \<^verbatim>\<open>name ilike pattern\<close> of the gateway. In a pattern
  \<^verbatim>\<open>%\<close> (and its alias \<^verbatim>\<open>*\<close>) stands for any run of characters, \<^verbatim>\<open>_\<close> for any one
  character, a backslash takes the next character literally, and every other character
  stands for itself in either case: two characters are the same when the codes of their
  small letters are.
\<close>

definition lower_code :: "char \<Rightarrow> nat" where
  "lower_code c =
     (if is_upper c \<or> (192 \<le> code c \<and> code c \<le> 222 \<and> code c \<noteq> 215) then code c + 32
      else code c)"

definition ci_eq :: "char \<Rightarrow> char \<Rightarrow> bool" where
  "ci_eq a b = (lower_code a = lower_code b)"

definition wildcard :: "char \<Rightarrow> bool" where
  "wildcard p = (p = CHR ''%'' \<or> p = CHR ''*'')"

definition backslash :: char where
  "backslash = CHR 0x5C"

fun like_match :: "string \<Rightarrow> string \<Rightarrow> bool" where
  "like_match [] s = (s = [])"
| "like_match (p # ps) [] = (wildcard p \<and> like_match ps [])"
| "like_match (p # ps) (c # cs) =
     (if wildcard p then like_match ps (c # cs) \<or> like_match (p # ps) cs
      else if p = CHR ''_'' then like_match ps cs
      else if p = backslash then (case ps of [] \<Rightarrow> False | q # qs \<Rightarrow> ci_eq q c \<and> like_match qs cs)
      else ci_eq p c \<and> like_match ps cs)"

text \<open>
  Modelled from the spec: the order of the gateway on a column, ascending, with the empty
  values of the nullable columns last; strings compare code unit by code unit.
\<close>

fun str_le :: "string \<Rightarrow> string \<Rightarrow> bool" where
  "str_le [] t = True"
| "str_le (a # s) [] = False"
| "str_le (a # s) (b # t) = (code a < code b \<or> (a = b \<and> str_le s t))"

definition opt_le :: "string option \<Rightarrow> string option \<Rightarrow> bool" where
  "opt_le a b = (case b of None \<Rightarrow> True | Some y \<Rightarrow> (case a of None \<Rightarrow> False | Some x \<Rightarrow> str_le x y))"

definition row_le :: "string \<Rightarrow> row \<Rightarrow> row \<Rightarrow> bool" where
  "row_le c a b =
     (if c = ''order'' then row_order a \<le> row_order b
      else if c = ''updated_at'' then opt_le (row_updated_at a) (row_updated_at b)
      else if c = ''updated_by'' then opt_le (row_updated_by a) (row_updated_by b)
      else str_le (col c a) (col c b))"

fun insort_by :: "('a \<Rightarrow> 'a \<Rightarrow> bool) \<Rightarrow> 'a \<Rightarrow> 'a list \<Rightarrow> 'a list" where
  "insort_by le x [] = [x]"
| "insort_by le x (y # ys) = (if le x y then x # y # ys else y # insort_by le x ys)"

definition sort_by :: "('a \<Rightarrow> 'a \<Rightarrow> bool) \<Rightarrow> 'a list \<Rightarrow> 'a list" where
  "sort_by le xs = foldr (insort_by le) xs []"

text \<open>
  Modelled from the spec: \<^verbatim>\<open>list(filter, order, range) -> (rows, total_count)\<close> of the
  gateway on the rows of a table: the rows that pass the filter, in the order asked for;
  of these the ones at the positions \<^verbatim>\<open>from\<close> to \<^verbatim>\<open>to\<close>, and the number of all of them.
\<close>

definition filtered :: "row list \<Rightarrow> list_query \<Rightarrow> row list" where
  "filtered tbl q =
     (case q_ilike q of None \<Rightarrow> tbl | Some p \<Rightarrow> filter (\<lambda>r. like_match p (row_name r)) tbl)"

definition ordered :: "row list \<Rightarrow> list_query \<Rightarrow> row list" where
  "ordered tbl q =
     sort_by (\<lambda>a b. if q_ascending q then row_le (q_orderBy q) a b else row_le (q_orderBy q) b a)
       (filtered tbl q)"

definition gateway_list :: "row list \<Rightarrow> list_query \<Rightarrow> list_reply" where
  "gateway_list tbl q =
     \<lparr>data = Some (take (nat (q_to q - q_from q + 1)) (drop (nat (q_from q)) (ordered tbl q))),
      count = Some (length (filtered tbl q)),
      failure = None\<rparr>"

section \<open>Search, sort and pagination\<close>

text \<open>
  The body of the debounced function builds the query from its argument \<^verbatim>\<open>term\<close> and from
  \<^verbatim>\<open>orderBy\<close>, \<^verbatim>\<open>order\<close>, \<^verbatim>\<open>page\<close> and \<^verbatim>\<open>rowsPerPage\<close> of its closure.
\<close>

definition build_query :: "entity \<Rightarrow> string \<Rightarrow> controller \<Rightarrow> list_query" where
  "build_query e term s =
     \<lparr>q_table = e,
      q_ilike = (if term \<noteq> [] then Some (CHR ''%'' # term @ ''%'') else None),
      q_orderBy = orderBy s,
      q_ascending = (order s = Asc),
      q_from = int (page s * rowsPerPage s),
      q_to = int ((page s + 1) * rowsPerPage s) - 1\<rparr>"

text \<open>
  \<^verbatim>\<open>debounce(f, 300)\<close>: a call starts the wait of 300 ms anew and keeps its own argument
  for the body; \<^verbatim>\<open>cancel\<close> drops the pending call.
\<close>

definition debouncedSearch :: "entity \<Rightarrow> string \<Rightarrow> controller \<Rightarrow> controller" where
  "debouncedSearch e term s = s\<lparr>timer := Some (now s + 300, build_query e term s)\<rparr>"

definition cancel :: "controller \<Rightarrow> controller" where
  "cancel s = s\<lparr>timer := None\<rparr>"

text \<open>
  The effect with the dependencies \<^verbatim>\<open>[searchTerm, orderBy, order, page, rowsPerPage]\<close>:
  when one of them differs from the previous render, the cleanup of the previous effect
  cancels and the effect calls \<^verbatim>\<open>debouncedSearch(searchTerm)\<close>.
\<close>

definition deps :: "controller \<Rightarrow> string \<times> string \<times> dir \<times> nat \<times> nat" where
  "deps s = (searchTerm s, orderBy s, order s, page s, rowsPerPage s)"

definition search_effect :: "entity \<Rightarrow> controller \<Rightarrow> controller \<Rightarrow> controller" where
  "search_effect e prev s = (if deps s = deps prev then s else debouncedSearch e (searchTerm s) (cancel s))"

definition handleSearchChange :: "entity \<Rightarrow> string \<Rightarrow> controller \<Rightarrow> controller" where
  "handleSearchChange e v s = search_effect e s (s\<lparr>searchTerm := v, page := 0\<rparr>)"

definition handleSort :: "entity \<Rightarrow> string \<Rightarrow> controller \<Rightarrow> controller" where
  "handleSort e property s =
     (let isAsc = (orderBy s = property \<and> order s = Asc)
      in search_effect e s (s\<lparr>order := (if isAsc then Desc else Asc), orderBy := property, page := 0\<rparr>))"

definition handleChangePage :: "entity \<Rightarrow> nat \<Rightarrow> controller \<Rightarrow> controller" where
  "handleChangePage e newPage s = search_effect e s (s\<lparr>page := newPage\<rparr>)"

definition handleChangeRowsPerPage :: "entity \<Rightarrow> nat \<Rightarrow> controller \<Rightarrow> controller" where
  "handleChangeRowsPerPage e n s = search_effect e s (s\<lparr>rowsPerPage := n, page := 0\<rparr>)"

text \<open>
  Time passes to \<^verbatim>\<open>t\<close>. A pending call that is due runs the body: \<^verbatim>\<open>setLoading(true)\<close>,
  and the query is sent and awaited.
\<close>

definition advance :: "nat \<Rightarrow> controller \<Rightarrow> controller" where
  "advance t s =
     (case timer s of
        None \<Rightarrow> s\<lparr>now := t\<rparr>
      | Some (due, q) \<Rightarrow>
          if due \<le> t
          then s\<lparr>now := t, timer := None, loading := True, inflight := inflight s @ [q],
                 requests := requests s @ [ListRows q]\<rparr>
          else s\<lparr>now := t\<rparr>)"

text \<open>
  The answer to an awaited query arrives and the body resumes: on an error the banner, else
  \<^verbatim>\<open>setCities(data || [])\<close> and \<^verbatim>\<open>setTotalCount(count || 0)\<close>; \<^verbatim>\<open>setLoading(false)\<close> in
  both cases.
\<close>

definition receive :: "entity \<Rightarrow> list_query \<Rightarrow> list_reply \<Rightarrow> controller \<Rightarrow> controller" where
  "receive e q r s =
     (if q \<notin> set (inflight s) then s
      else
        let s' = s\<lparr>inflight := remove1 q (inflight s)\<rparr>
        in case failure r of
             Some err \<Rightarrow> s'\<lparr>error := Some (msg_search e), loading := False\<rparr>
           | None \<Rightarrow>
               s'\<lparr>rows := (case data r of Some d \<Rightarrow> d | None \<Rightarrow> []),
                  totalCount := (case count r of Some n \<Rightarrow> n | None \<Rightarrow> 0),
                  loading := False\<rparr>)"

text \<open>
  The events of a controller's list, each at its time: the clock first passes to the
  time of the event, then the handler runs.
\<close>

datatype event =
    SearchChange string
  | Sort string
  | ChangePage nat
  | ChangeRowsPerPage nat
  | Tick
  | Response list_query list_reply

fun handle :: "entity \<Rightarrow> event \<Rightarrow> controller \<Rightarrow> controller" where
  "handle e (SearchChange v) s = handleSearchChange e v s"
| "handle e (Sort property) s = handleSort e property s"
| "handle e (ChangePage newPage) s = handleChangePage e newPage s"
| "handle e (ChangeRowsPerPage n) s = handleChangeRowsPerPage e n s"
| "handle e Tick s = s"
| "handle e (Response q r) s = receive e q r s"

definition step :: "entity \<Rightarrow> nat \<times> event \<Rightarrow> controller \<Rightarrow> controller" where
  "step e te s = handle e (snd te) (advance (fst te) s)"

definition run :: "entity \<Rightarrow> (nat \<times> event) list \<Rightarrow> controller \<Rightarrow> controller" where
  "run e evs s = fold (step e) evs s"

text \<open>The controller when its page opens: the initial state, and the effect of the first render.\<close>

definition mounted :: "entity \<Rightarrow> controller" where
  "mounted e =
     debouncedSearch e []
       \<lparr>rows = [], loading = True, error = None, success = None, openDialog = False,
        editing = None, formData = initial_form, validationErrors = no_errors,
        existingOrders = [], searchTerm = [], page = 0, rowsPerPage = 15, totalCount = 0,
        orderBy = (if e = Machine then ''order'' else ''name''), order = Asc,
        now = 0, timer = None, inflight = [], requests = []\<rparr>"

section \<open>The modal form\<close>

text \<open>
  \<^verbatim>\<open>handleNameChange\<close>: the typed value is put in upper case and stored, and the pattern
  is tested at once. MachineList reports in \<^verbatim>\<open>validationErrors.name\<close>, the others in
  \<^verbatim>\<open>error\<close>. The name field of KpiList stores the typed value as it is.
\<close>

fun handleNameChange :: "entity \<Rightarrow> string \<Rightarrow> controller \<Rightarrow> controller" where
  "handleNameChange Kpi v s = s\<lparr>formData := (formData s)\<lparr>f_name := v\<rparr>\<rparr>"
| "handleNameChange Machine v s =
     (let upperValue = toUpperCase v
      in s\<lparr>formData := (formData s)\<lparr>f_name := upperValue\<rparr>,
            validationErrors := (validationErrors s)\<lparr>err_name :=
              (if \<not> validateName Machine upperValue then Some (msg_allowed Machine) else None)\<rparr>\<rparr>)"
| "handleNameChange e v s =
     (let upperValue = toUpperCase v
      in s\<lparr>formData := (formData s)\<lparr>f_name := upperValue\<rparr>,
            error := (if \<not> validateName e upperValue then Some (msg_allowed e) else None)\<rparr>)"

definition handleCloseDialog :: "entity \<Rightarrow> controller \<Rightarrow> controller" where
  "handleCloseDialog e s =
     (let s' = s\<lparr>openDialog := False, editing := None, formData := initial_form, error := None\<rparr>
      in if e = Machine then s'\<lparr>existingOrders := [], validationErrors := no_errors\<rparr> else s')"

text \<open>
  The checks of \<^verbatim>\<open>handleSubmit\<close> after the pattern: the parent selected (CityList,
  DistrictList, LineList), name and unit not empty once trimmed (KpiList).
\<close>

definition required_selected :: "entity \<Rightarrow> formData \<Rightarrow> bool" where
  "required_selected e f =
     (case e of
        City \<Rightarrow> f_country_id f \<noteq> []
      | District \<Rightarrow> f_city_id f \<noteq> []
      | Line \<Rightarrow> f_company_id f \<noteq> [] \<and> f_district_id f \<noteq> [] \<and> f_line_type_id f \<noteq> []
      | Kpi \<Rightarrow> trim (f_name f) \<noteq> [] \<and> trim (f_unit f) \<noteq> []
      | _ \<Rightarrow> True)"

text \<open>The parent columns of the pre-check, and the columns written besides the name.\<close>

definition scope :: "entity \<Rightarrow> formData \<Rightarrow> (string \<times> string) list" where
  "scope e f =
     (case e of
        City \<Rightarrow> [(''country_id'', f_country_id f)]
      | District \<Rightarrow> [(''city_id'', f_city_id f)]
      | Line \<Rightarrow> [(''company_id'', f_company_id f), (''district_id'', f_district_id f)]
      | _ \<Rightarrow> [])"

definition fields :: "entity \<Rightarrow> formData \<Rightarrow> payload" where
  "fields e f =
     (case e of
        City \<Rightarrow> [(''country_id'', Str (f_country_id f))]
      | District \<Rightarrow> [(''city_id'', Str (f_city_id f))]
      | Line \<Rightarrow> [(''company_id'', Str (f_company_id f)), (''district_id'', Str (f_district_id f)),
                 (''line_type_id'', Str (f_line_type_id f))]
      | Machine \<Rightarrow> [(''order'', Num (f_order f)), (''line_id'', Str (f_line_id f))]
      | Kpi \<Rightarrow> [(''unit'', Str (trim (f_unit f)))]
      | _ \<Rightarrow> [])"

definition mutation :: "entity \<Rightarrow> row option \<Rightarrow> formData \<Rightarrow> user \<Rightarrow> request" where
  "mutation e ed f u =
     (let trimmedName = trim (f_name f)
      in case ed of
           Some r \<Rightarrow>
             Update e ((''name'', Str trimmedName) # fields e f @ [(''updated_by'', Str (user_id u))])
               (row_id r)
         | None \<Rightarrow>
             Insert e ((''name'', Str trimmedName) # fields e f @ [(''created_by'', Str (user_id u))]))"

definition saved :: "entity \<Rightarrow> controller \<Rightarrow> controller" where
  "saved e s =
     debouncedSearch e (searchTerm s)
       (handleCloseDialog e
          (s\<lparr>success := Some (if editing s = None then msg_added e else msg_updated e)\<rparr>))"

text \<open>
  \<^verbatim>\<open>validateForm\<close> of MachineList: the new \<^verbatim>\<open>validationErrors\<close>; the form is valid when
  the object has no key.
\<close>

definition order_error :: "int \<Rightarrow> controller \<Rightarrow> string option" where
  "order_error n s =
     (if n < 1000 \<or> n > 9999 then Some msg_order_range
      else if n \<in> set (existingOrders s) \<and> (case editing s of None \<Rightarrow> True | Some m \<Rightarrow> n \<noteq> row_order m)
      then Some msg_order_used
      else None)"

definition validateForm :: "controller \<Rightarrow> validationErrors" where
  "validateForm s =
     \<lparr>err_name =
        (if trim (f_name (formData s)) = [] then Some ''Machine name is required''
         else if \<not> validateName Machine (f_name (formData s)) then Some (msg_allowed Machine)
         else None),
      err_order = order_error (f_order (formData s)) s,
      err_line = (if f_line_id (formData s) = [] then Some ''Please select a production line'' else None)\<rparr>"

text \<open>
  \<^verbatim>\<open>handleSubmit\<close> of MachineList. \<^verbatim>\<open>answer\<close> is what the gateway answers to the insert or
  update: no error, or the error object.
\<close>

definition machine_handleSubmit :: "pg_error option \<Rightarrow> user option \<Rightarrow> controller \<Rightarrow> controller" where
  "machine_handleSubmit answer usr s =
     (case usr of
        None \<Rightarrow> s\<lparr>error := Some msg_login\<rparr>
      | Some u \<Rightarrow>
          let s1 = s\<lparr>validationErrors := validateForm s\<rparr>
          in if validateForm s \<noteq> no_errors then s1
             else
               let s2 = s1\<lparr>requests := requests s1 @ [mutation Machine (editing s) (formData s) u]\<rparr>
               in (case answer of
                     None \<Rightarrow> saved Machine s2
                   | Some err \<Rightarrow>
                       if err_code err = ''23505''
                          \<and> includes_str (err_message err) ''machine_line_order_unique''
                       then s2\<lparr>validationErrors := (validationErrors s2)\<lparr>err_order := Some msg_order_used\<rparr>\<rparr>
                       else s2\<lparr>error := Some (msg_failed Machine)\<rparr>))"

text \<open>
  \<^verbatim>\<open>handleSubmit\<close> of the other seven controllers. \<^verbatim>\<open>tbl\<close> is the table at the gateway
  when the pre-check is answered, \<^verbatim>\<open>answer\<close> what the gateway answers to the insert or
  update.
\<close>

definition handleSubmit ::
  "entity \<Rightarrow> row list \<Rightarrow> pg_error option \<Rightarrow> user option \<Rightarrow> controller \<Rightarrow> controller" where
  "handleSubmit e tbl answer usr s =
     (if e = Machine then machine_handleSubmit answer usr s
      else
        case usr of
          None \<Rightarrow> s\<lparr>error := Some msg_login\<rparr>
        | Some u \<Rightarrow>
            if \<not> validateName e (f_name (formData s)) then s\<lparr>error := Some (msg_invalid e)\<rparr>
            else if \<not> required_selected e (formData s) then s\<lparr>error := Some (msg_required e)\<rparr>
            else
              let trimmedName = trim (f_name (formData s));
                  eqs = (''name'', trimmedName) # scope e (formData s);
                  neq = (case editing s of
                           None \<Rightarrow> None
                         | Some r \<Rightarrow> if row_id r \<noteq> [] then Some (row_id r) else None);
                  s1 = s\<lparr>requests := requests s @ [PreCheck e eqs neq]\<rparr>
              in (case maybeSingle tbl eqs neq of
                    Some existing \<Rightarrow> s1\<lparr>error := Some (msg_exists e)\<rparr>
                  | None \<Rightarrow>
                      let s2 = s1\<lparr>requests := requests s1 @ [mutation e (editing s) (formData s) u]\<rparr>
                      in (case answer of
                            None \<Rightarrow> saved e s2
                          | Some err \<Rightarrow> s2\<lparr>error := Some (msg_failed e)\<rparr>)))"

section \<open>The order field of the machine form\<close>

text \<open>
  \<^verbatim>\<open>parseInt(string)\<close> without a radix: leading white space is skipped, then an optional
  sign, then \<^verbatim>\<open>0x\<close> or \<^verbatim>\<open>0X\<close> selects radix 16; the longest run of digits of the radix
  is the number, and with no digit the result is \<^verbatim>\<open>NaN\<close>, here \<^term>\<open>None\<close>. The result is
  exact here; JavaScript rounds it to a double from 2^53 on.
\<close>

definition digit_of :: "nat \<Rightarrow> char \<Rightarrow> nat option" where
  "digit_of radix c =
     (let v = (if is_digit c then Some (code c - 48)
               else if 97 \<le> code c \<and> code c \<le> 122 then Some (code c - 87)
               else if is_upper c then Some (code c - 55)
               else None)
      in case v of None \<Rightarrow> None | Some d \<Rightarrow> if d < radix then Some d else None)"

definition parseInt :: "string \<Rightarrow> int option" where
  "parseInt str =
     (let s = dropWhile is_space str;
          negative = (s \<noteq> [] \<and> hd s = CHR ''-'');
          s1 = (if s \<noteq> [] \<and> (hd s = CHR ''-'' \<or> hd s = CHR ''+'') then tl s else s);
          hex = (length s1 \<ge> 2 \<and> s1 ! 0 = CHR ''0'' \<and> (s1 ! 1 = CHR ''x'' \<or> s1 ! 1 = CHR ''X''));
          radix = (if hex then 16 else 10);
          s2 = (if hex then drop 2 s1 else s1);
          ds = takeWhile (\<lambda>c. digit_of radix c \<noteq> None) s2;
          n = foldl (\<lambda>a c. a * radix + the (digit_of radix c)) 0 ds
      in if ds = [] then None else Some (if negative then - int n else int n))"

text \<open>\<^verbatim>\<open>handleOrderChange\<close>: \<^verbatim>\<open>parseInt(value) || 1000\<close>, stored and tested at once.\<close>

definition handleOrderChange :: "string \<Rightarrow> controller \<Rightarrow> controller" where
  "handleOrderChange v s =
     (let numValue = (case parseInt v of None \<Rightarrow> 1000 | Some n \<Rightarrow> if n = 0 then 1000 else n)
      in s\<lparr>formData := (formData s)\<lparr>f_order := numValue\<rparr>,
            validationErrors := (validationErrors s)\<lparr>err_order := order_error numValue s\<rparr>\<rparr>)"

text \<open>
  \<^verbatim>\<open>fetchExistingOrders\<close>, with the answer of the gateway to its request: \<^verbatim>\<open>machines\<close> is
  the machine table at the gateway, or \<^term>\<open>None\<close> when the request fails. Without a line
  the orders are emptied and nothing is asked. On a failure the function returns and the
  orders stay those fetched before. Else the orders are those of the machines of the
  line, ascending, and the next free order from 1000 on is put in the form when no
  machine is being edited. The answer is applied at once: no other event of the
  controller comes between the request and its answer.
\<close>

function nextOrder :: "int list \<Rightarrow> int \<Rightarrow> int" where
  "nextOrder orders n = (if n \<in> set orders then nextOrder orders (n + 1) else n)"
  by pat_completeness auto
termination
proof (relation "measure (\<lambda>(orders, n). card {k \<in> set orders. n \<le> k})")
  show "wf (measure (\<lambda>(orders, n). card {k \<in> set orders. n \<le> k}))"
    by simp
next
  fix orders :: "int list" and n :: int
  assume n: "n \<in> set orders"
  have "n \<in> {k \<in> set orders. n \<le> k}" and "n \<notin> {k \<in> set orders. n + 1 \<le> k}"
    and "{k \<in> set orders. n + 1 \<le> k} \<subseteq> {k \<in> set orders. n \<le> k}"
    using n by auto
  then have "{k \<in> set orders. n + 1 \<le> k} \<subset> {k \<in> set orders. n \<le> k}"
    by blast
  then have "card {k \<in> set orders. n + 1 \<le> k} < card {k \<in> set orders. n \<le> k}"
    by (simp add: psubset_card_mono)
  then show "((orders, n + 1), (orders, n)) \<in> measure (\<lambda>(orders, n). card {k \<in> set orders. n \<le> k})"
    by simp
qed

declare nextOrder.simps [simp del]

definition fetchExistingOrders :: "row list option \<Rightarrow> string \<Rightarrow> controller \<Rightarrow> controller" where
  "fetchExistingOrders machines lineId s =
     (if lineId = [] then s\<lparr>existingOrders := []\<rparr>
      else
        case machines of
          None \<Rightarrow> s
        | Some tbl \<Rightarrow>
            let orders = sort (map row_order (filter (\<lambda>m. row_line_id m = lineId) tbl));
                s' = s\<lparr>existingOrders := orders\<rparr>
            in if editing s = None
               then s'\<lparr>formData := (formData s')\<lparr>f_order := nextOrder orders 1000\<rparr>\<rparr>
               else s')"

text \<open>\<^verbatim>\<open>handleLineChange\<close>: the line is stored, its error cleared, and the orders fetched.\<close>

definition handleLineChange :: "row list option \<Rightarrow> string \<Rightarrow> controller \<Rightarrow> controller" where
  "handleLineChange machines lineId s =
     fetchExistingOrders machines lineId
       (s\<lparr>formData := (formData s)\<lparr>f_line_id := lineId\<rparr>,
          validationErrors := (validationErrors s)\<lparr>err_line := None\<rparr>\<rparr>)"

section \<open>Reading the request log\<close>

text \<open>The requests a handler has added to the log, and the name an insert or update stores.\<close>

definition sent_by :: "controller \<Rightarrow> controller \<Rightarrow> request list" where
  "sent_by s s' = drop (length (requests s)) (requests s')"

definition stored_name :: "request \<Rightarrow> string option" where
  "stored_name rq =
     (case rq of
        Insert e p \<Rightarrow> (case map_of p ''name'' of Some (Str n) \<Rightarrow> Some n | _ \<Rightarrow> None)
      | Update e p i \<Rightarrow> (case map_of p ''name'' of Some (Str n) \<Rightarrow> Some n | _ \<Rightarrow> None)
      | _ \<Rightarrow> None)"

text \<open>The filters of the pre-check that \<^verbatim>\<open>handleSubmit\<close> builds.\<close>

definition precheck_of :: "entity \<Rightarrow> controller \<Rightarrow> (string \<times> string) list \<times> string option" where
  "precheck_of e s =
     ((''name'', trim (f_name (formData s))) # scope e (formData s),
      (case editing s of None \<Rightarrow> None | Some r \<Rightarrow> if row_id r \<noteq> [] then Some (row_id r) else None))"

text \<open>
  The character set of the specification: capital letters and white space, and for line
  and machine names also digits and the hyphen.
\<close>

definition allowed :: "entity \<Rightarrow> char \<Rightarrow> bool" where
  "allowed e c =
     (is_upper c \<or> is_space c \<or> ((e = Line \<or> e = Machine) \<and> (is_digit c \<or> c = CHR ''-'')))"


text \<open>The events that bring an answer of the gateway to a list query.\<close>

fun is_answer :: "event \<Rightarrow> bool" where
  "is_answer (Response q r) = True"
| "is_answer ev = False"

section \<open>Case-insensitive substrings\<close>

text \<open>
  The words of the specification, "the name contains the term case-insensitively": the
  term is at some position of the name, up to the case of the letters. A term is plain
  when it has none of the characters that a pattern of \<^verbatim>\<open>ilike\<close> reads as a wildcard or an
  escape.
\<close>

fun starts_ci :: "string \<Rightarrow> string \<Rightarrow> bool" where
  "starts_ci [] s = True"
| "starts_ci (p # ps) [] = False"
| "starts_ci (p # ps) (c # cs) = (ci_eq p c \<and> starts_ci ps cs)"

fun contains_ci :: "string \<Rightarrow> string \<Rightarrow> bool" where
  "contains_ci [] t = starts_ci t []"
| "contains_ci (c # cs) t = (starts_ci t (c # cs) \<or> contains_ci cs t)"

definition plain :: "string \<Rightarrow> bool" where
  "plain t = list_all (\<lambda>c. \<not> wildcard c \<and> c \<noteq> CHR ''_'' \<and> c \<noteq> backslash) t"

section \<open>Example states\<close>

text \<open>A signed-in user, and a controller after the button that opens the modal to add a row.\<close>

definition some_user :: user where
  "some_user = \<lparr>user_id = ''u1''\<rparr>"

definition add_dialog :: "entity \<Rightarrow> controller" where
  "add_dialog e = (mounted e)\<lparr>openDialog := True\<rparr>"

definition blank_row :: row where
  "blank_row = \<lparr>row_id = [], row_name = [], row_country_id = [], row_city_id = [],
     row_company_id = [], row_district_id = [], row_line_type_id = [], row_line_id = [],
     row_unit = [], row_order = 0, row_created_at = [], row_created_by = [],
     row_updated_at = None, row_updated_by = None\<rparr>"

text \<open>
  A machine table with the order 1000 on line \<^verbatim>\<open>l1\<close> and on line \<^verbatim>\<open>l2\<close>. The machine
  form is opened to add a machine; line \<^verbatim>\<open>l1\<close> is selected, which fetches the orders
  \<^verbatim>\<open>[1000]\<close> and proposes 1001, and a name is typed. Then 1000 is typed as the order.
\<close>

definition press :: row where
  "press = blank_row\<lparr>row_id := ''machine-1'', row_name := ''PRESS-1'', row_order := 1000,
     row_line_id := ''l1''\<rparr>"

definition oven :: row where
  "oven = blank_row\<lparr>row_id := ''machine-2'', row_name := ''OVEN-1'', row_order := 1000,
     row_line_id := ''l2''\<rparr>"

definition valid_machine_form :: controller where
  "valid_machine_form =
     handleNameChange Machine ''press-2'' (handleLineChange (Some [press, oven]) ''l1'' (add_dialog Machine))"

definition taken_1000 :: controller where
  "taken_1000 = handleOrderChange ''1000'' valid_machine_form"

text \<open>Two rejections by the gateway: the unique order of a line, and another one.\<close>

definition order_conflict :: pg_error where
  "order_conflict = \<lparr>err_code = ''23505'',
     err_message = ''duplicate key value violates unique constraint \"machine_line_order_unique\"''\<rparr>"

definition other_rejection :: pg_error where
  "other_rejection = \<lparr>err_code = ''42501'', err_message = ''permission denied for table machine''\<rparr>"

text \<open>
  The city table with one city, and the city form: opened to add a city, and opened to
  edit that city.
\<close>

definition springfield :: row where
  "springfield = blank_row\<lparr>row_id := ''city-1'', row_name := ''SPRINGFIELD'', row_country_id := ''us''\<rparr>"

definition city_form :: "string \<Rightarrow> string \<Rightarrow> controller" where
  "city_form nm cid = (add_dialog City)\<lparr>formData := initial_form\<lparr>f_name := nm, f_country_id := cid\<rparr>\<rparr>"



text \<open>The KPI form, opened to add a KPI, with a unit and a typed name.\<close>

definition kpi_form :: controller where
  "kpi_form = handleNameChange Kpi ''Power factor''
     ((add_dialog Kpi)\<lparr>formData := initial_form\<lparr>f_unit := ''%''\<rparr>\<rparr>)"

text \<open>
  A city table of 47 rows, named \<^verbatim>\<open>AA\<close> to \<^verbatim>\<open>BU\<close>, with \<^verbatim>\<open>AA\<close> stored last, and the city
  list on its fourth page.
\<close>

definition city_named :: "string \<Rightarrow> row" where
  "city_named nm = blank_row\<lparr>row_id := ''city-'' @ nm, row_name := nm, row_country_id := ''us''\<rparr>"

definition names_47 :: "string list" where
  "names_47 =
    [''AB'', ''AC'', ''AD'', ''AE'', ''AF'', ''AG'', ''AH'', ''AI'', ''AJ'', ''AK'',
      ''AL'', ''AM'', ''AN'', ''AO'', ''AP'', ''AQ'', ''AR'', ''AS'', ''AT'', ''AU'',
      ''AV'', ''AW'', ''AX'', ''AY'', ''AZ'', ''BA'', ''BB'', ''BC'', ''BD'', ''BE'',
      ''BF'', ''BG'', ''BH'', ''BI'', ''BJ'', ''BK'', ''BL'', ''BM'', ''BN'', ''BO'',
      ''BP'', ''BQ'', ''BR'', ''BS'', ''BT'', ''BU'', ''AA'']"

definition cities_47 :: "row list" where
  "cities_47 = map city_named names_47"

definition page_3 :: controller where
  "page_3 = (mounted City)\<lparr>page := 3\<rparr>"

text \<open>
  A city table of three rows, and the list queries of the city list for the terms typed
  below: no term, \<^verbatim>\<open>AN\<close> and \<^verbatim>\<open>ANK\<close>.
\<close>

definition ankara :: row where
  "ankara = blank_row\<lparr>row_id := ''city-2'', row_name := ''ANKARA'', row_country_id := ''tr''\<rparr>"

definition antalya :: row where
  "antalya = blank_row\<lparr>row_id := ''city-3'', row_name := ''ANTALYA'', row_country_id := ''tr''\<rparr>"

definition three_cities :: "row list" where
  "three_cities = [springfield, antalya, ankara]"

definition q_all :: list_query where
  "q_all = build_query City [] (mounted City)"

definition q_an :: list_query where
  "q_an = build_query City ''AN'' (mounted City)"

definition q_ank :: list_query where
  "q_ank = build_query City ''ANK'' (mounted City)"

text \<open>
  Three keystrokes within 300 ms and a quiet second, on the city list that was opened
  one second before.
\<close>

definition typing :: "(nat \<times> event) list" where
  "typing = [(1000, SearchChange ''A''), (1100, SearchChange ''AN''), (1200, SearchChange ''ANK''),
     (1500, Tick)]"



text \<open>A company table of one row, and the query of the company list for the term \<^verbatim>\<open>%\<close>.\<close>

definition acme :: row where
  "acme = blank_row\<lparr>row_id := ''company-1'', row_name := ''ACME''\<rparr>"

definition q_percent :: list_query where
  "q_percent = build_query Company ''%'' (mounted Company)"

section \<open>Name validation on the examples of the specification\<close>

lemma toUpperCase_Acme: "toUpperCase ''Acme'' = ''ACME''"
  by code_simp

lemma toUpperCase_Acme_1: "toUpperCase ''Acme-1'' = ''ACME-1''"
  by code_simp

lemma toUpperCase_LINE_1: "toUpperCase ''LINE-1'' = ''LINE-1''"
  by code_simp

lemma company_ACME: "validateName Company ''ACME''"
  by code_simp

lemma company_ACME_1: "\<not> validateName Company ''ACME-1''"
  by code_simp

lemma line_LINE_1: "validateName Line ''LINE-1''"
  by code_simp

text \<open>
  C7. Typing \<^verbatim>\<open>Acme\<close> in the company form stores \<^verbatim>\<open>ACME\<close>, which passes the company
  pattern, and no error is shown. Typing \<^verbatim>\<open>Acme-1\<close> stores \<^verbatim>\<open>ACME-1\<close>, which fails the
  company pattern: the error is shown at once, and a submit by a signed-in user sets the
  format error and sends nothing. \<^verbatim>\<open>LINE-1\<close> passes the line pattern and shows no error
  in the line form.
\<close>

theorem name_validation_examples:
  "formData (handleNameChange Company ''Acme'' s) = (formData s)\<lparr>f_name := ''ACME''\<rparr>
   \<and> error (handleNameChange Company ''Acme'' s) = None
   \<and> validateName Company (toUpperCase ''Acme'')
   \<and> formData (handleNameChange Company ''Acme-1'' s) = (formData s)\<lparr>f_name := ''ACME-1''\<rparr>
   \<and> error (handleNameChange Company ''Acme-1'' s) = Some (msg_allowed Company)
   \<and> \<not> validateName Company (toUpperCase ''Acme-1'')
   \<and> handleSubmit Company tbl answer (Some u) (handleNameChange Company ''Acme-1'' s)
       = (handleNameChange Company ''Acme-1'' s)\<lparr>error := Some (msg_invalid Company)\<rparr>
   \<and> formData (handleNameChange Line ''LINE-1'' s) = (formData s)\<lparr>f_name := ''LINE-1''\<rparr>
   \<and> error (handleNameChange Line ''LINE-1'' s) = None
   \<and> validateName Line (toUpperCase ''LINE-1'')"
  using company_ACME company_ACME_1 line_LINE_1
  by (simp add: toUpperCase_Acme toUpperCase_Acme_1 toUpperCase_LINE_1 handleSubmit_def)

section \<open>Submitting an empty name\<close>

lemma trim_spaces: "trim ''   '' = []"
  by code_simp

lemma company_spaces: "validateName Company ''   ''"
  by code_simp

text \<open>
  C2. In the company form a signed-in user submits a name of three spaces while no
  company has the empty name: the pattern accepts it, the pre-check finds nothing, and the
  insert is sent with the empty name; the modal closes with the success message. The
  KPI form and the machine form reject the same input and send nothing.
\<close>

theorem company_blank_name_is_inserted:
  "requests (handleSubmit Company [] None (Some some_user)
       ((add_dialog Company)\<lparr>formData := initial_form\<lparr>f_name := ''   ''\<rparr>\<rparr>))
     = [PreCheck Company [(''name'', [])] None,
        Insert Company [(''name'', Str []), (''created_by'', Str ''u1'')]]
   \<and> success (handleSubmit Company [] None (Some some_user)
       ((add_dialog Company)\<lparr>formData := initial_form\<lparr>f_name := ''   ''\<rparr>\<rparr>))
     = Some ''Company added successfully''
   \<and> error (handleSubmit Company [] None (Some some_user)
       ((add_dialog Company)\<lparr>formData := initial_form\<lparr>f_name := ''   ''\<rparr>\<rparr>))
     = None
   \<and> handleSubmit Kpi [] None (Some some_user)
       ((add_dialog Kpi)\<lparr>formData := initial_form\<lparr>f_name := ''   '', f_unit := ''kWh''\<rparr>\<rparr>)
     = (add_dialog Kpi)\<lparr>formData := initial_form\<lparr>f_name := ''   '', f_unit := ''kWh''\<rparr>,
         error := Some ''Name and unit are required''\<rparr>
   \<and> err_name (validationErrors (handleSubmit Machine [] None (Some some_user)
       ((add_dialog Machine)\<lparr>formData := initial_form\<lparr>f_name := ''   '', f_line_id := ''l1''\<rparr>\<rparr>)))
     = Some ''Machine name is required''
   \<and> requests (handleSubmit Machine [] None (Some some_user)
       ((add_dialog Machine)\<lparr>formData := initial_form\<lparr>f_name := ''   '', f_line_id := ''l1''\<rparr>\<rparr>))
     = []"
  using company_spaces
  by (simp add: handleSubmit_def machine_handleSubmit_def validateForm_def no_errors_def
      add_dialog_def mounted_def debouncedSearch_def initial_form_def some_user_def
      required_selected_def scope_def fields_def mutation_def maybeSingle_def saved_def
      handleCloseDialog_def msg_added_def Noun_def msg_required_def trim_spaces
      order_error_def build_query_def)

section \<open>The order of a machine\<close>

lemma order_error_in_form:
  "order_error (f_order (formData s)) s \<noteq> None \<Longrightarrow> validateForm s \<noteq> no_errors"
  by (auto simp: validateForm_def no_errors_def)

lemma existing_orders_of_line:
  "set (existingOrders (handleLineChange (Some machines) lineId s))
     = {n. lineId \<noteq> [] \<and> (\<exists>m\<in>set machines. row_line_id m = lineId \<and> row_order m = n)}"
  by (auto simp: handleLineChange_def fetchExistingOrders_def Let_def)

lemma existing_orders_kept:
  "existingOrders (handleLineChange None lineId s) = (if lineId = [] then [] else existingOrders s)"
  by (simp add: handleLineChange_def fetchExistingOrders_def)

lemma nextOrder_press: "nextOrder [1000] 1000 = 1001"
  by (simp add: nextOrder.simps [of _ 1000] nextOrder.simps [of _ 1001])

lemma parseInt_1000: "parseInt ''1000'' = Some 1000"
  by code_simp

lemma toUpperCase_press: "toUpperCase ''press-2'' = ''PRESS-2''"
  by code_simp

lemma machine_PRESS_2: "validateName Machine ''PRESS-2''"
  by code_simp

lemma trim_PRESS_2: "trim ''PRESS-2'' = ''PRESS-2''"
  by code_simp

lemma valid_machine_form_state:
  "valid_machine_form = (add_dialog Machine)\<lparr>existingOrders := [1000],
     formData := initial_form\<lparr>f_name := ''PRESS-2'', f_line_id := ''l1'', f_order := 1001\<rparr>\<rparr>"
  using machine_PRESS_2
  by (simp add: valid_machine_form_def handleLineChange_def fetchExistingOrders_def
      press_def oven_def blank_row_def add_dialog_def mounted_def debouncedSearch_def
      nextOrder_press toUpperCase_press initial_form_def no_errors_def)

lemma taken_1000_state:
  "taken_1000 = (add_dialog Machine)\<lparr>existingOrders := [1000],
     formData := initial_form\<lparr>f_name := ''PRESS-2'', f_line_id := ''l1'', f_order := 1000\<rparr>,
     validationErrors := no_errors\<lparr>err_order := Some msg_order_used\<rparr>\<rparr>"
  by (simp add: taken_1000_def valid_machine_form_state handleOrderChange_def parseInt_1000
      order_error_def add_dialog_def mounted_def debouncedSearch_def initial_form_def no_errors_def)

lemma taken_1000_facts:
  "1000 \<in> set (existingOrders taken_1000)"
  "editing taken_1000 = None"
  "f_order (formData taken_1000) = 1000"
  "9999 \<notin> set (existingOrders taken_1000)"
  by (simp_all add: taken_1000_state add_dialog_def mounted_def debouncedSearch_def initial_form_def)

text \<open>
  C6. After a line is selected and the gateway has answered, the fetched orders are the
  orders of the machines of that line and of no other line; when the request fails, they
  stay those fetched before. In the machine form the order 1000 gets the error "already
  used" when 1000 is among the fetched orders and is not the order of the machine being
  edited; 9999 never gets the range error, and no error at all when it is free; 10000,
  and every integer below 1000 or above 9999, gets the range error. A submit of a form
  whose order has an error sends nothing to the gateway, whoever the user is, keeps the
  modal and the form, and for a signed-in user shows that error on the order field.
\<close>

theorem machine_order_checks:
  "set (existingOrders (handleLineChange (Some machines) lineId s))
     = {k. lineId \<noteq> [] \<and> (\<exists>m\<in>set machines. row_line_id m = lineId \<and> row_order m = k)}
   \<and> existingOrders (handleLineChange None lineId s) = (if lineId = [] then [] else existingOrders s)
   \<and> (1000 \<in> set (existingOrders s) \<and> (\<forall>m. editing s = Some m \<longrightarrow> row_order m \<noteq> 1000)
      \<longrightarrow> order_error 1000 s = Some msg_order_used)
   \<and> order_error 9999 s \<noteq> Some msg_order_range
   \<and> (9999 \<notin> set (existingOrders s) \<longrightarrow> order_error 9999 s = None)
   \<and> order_error 10000 s = Some msg_order_range
   \<and> (n < 1000 \<or> 9999 < n \<longrightarrow> order_error n s = Some msg_order_range)
   \<and> (order_error (f_order (formData s)) s \<noteq> None \<longrightarrow>
        requests (machine_handleSubmit answer usr s) = requests s
        \<and> openDialog (machine_handleSubmit answer usr s) = openDialog s
        \<and> formData (machine_handleSubmit answer usr s) = formData s
        \<and> err_order (validationErrors (machine_handleSubmit answer (Some u) s))
            = order_error (f_order (formData s)) s)"
proof -
  have ne: "msg_order_used \<noteq> msg_order_range"
    by (simp add: msg_order_used_def msg_order_range_def)
  have a: "1000 \<in> set (existingOrders s) \<and> (\<forall>m. editing s = Some m \<longrightarrow> row_order m \<noteq> 1000)
      \<longrightarrow> order_error 1000 s = Some msg_order_used"
    by (auto simp: order_error_def split: option.splits)
  have b: "order_error 9999 s \<noteq> Some msg_order_range"
    using ne by (simp add: order_error_def)
  have c: "9999 \<notin> set (existingOrders s) \<longrightarrow> order_error 9999 s = None"
    by (simp add: order_error_def)
  have d: "order_error 10000 s = Some msg_order_range"
    by (simp add: order_error_def)
  have e: "n < 1000 \<or> 9999 < n \<longrightarrow> order_error n s = Some msg_order_range"
    by (auto simp: order_error_def)
  have f: "order_error (f_order (formData s)) s \<noteq> None \<longrightarrow>
        requests (machine_handleSubmit answer usr s) = requests s
        \<and> openDialog (machine_handleSubmit answer usr s) = openDialog s
        \<and> formData (machine_handleSubmit answer usr s) = formData s
        \<and> err_order (validationErrors (machine_handleSubmit answer (Some u) s))
            = order_error (f_order (formData s)) s"
  proof
    assume "order_error (f_order (formData s)) s \<noteq> None"
    then have bad: "validateForm s \<noteq> no_errors"
      by (rule order_error_in_form)
    show "requests (machine_handleSubmit answer usr s) = requests s
        \<and> openDialog (machine_handleSubmit answer usr s) = openDialog s
        \<and> formData (machine_handleSubmit answer usr s) = formData s
        \<and> err_order (validationErrors (machine_handleSubmit answer (Some u) s))
            = order_error (f_order (formData s)) s"
      using bad
      by (cases usr) (simp_all add: machine_handleSubmit_def, simp_all add: validateForm_def)
  qed
  from existing_orders_of_line [of machines lineId s] existing_orders_kept [of lineId s] a b c d e f
  show ?thesis by blast
qed

theorem machine_order_checks_witness:
  "existingOrders (handleLineChange (Some [press, oven]) ''l1'' (add_dialog Machine)) = [1000]
   \<and> 1000 \<in> set (existingOrders taken_1000)
   \<and> editing taken_1000 = None
   \<and> order_error 1000 taken_1000 = Some msg_order_used
   \<and> order_error (f_order (formData taken_1000)) taken_1000 \<noteq> None
   \<and> requests (machine_handleSubmit None (Some some_user) taken_1000) = requests taken_1000
   \<and> err_order (validationErrors (machine_handleSubmit None (Some some_user) taken_1000))
       = Some msg_order_used
   \<and> 9999 \<notin> set (existingOrders taken_1000) \<and> order_error 9999 taken_1000 = None
   \<and> (9999::int) < 10000 \<and> order_error 10000 taken_1000 = Some msg_order_range"
proof -
  have fetched: "existingOrders (handleLineChange (Some [press, oven]) ''l1'' (add_dialog Machine)) = [1000]"
    by (simp add: handleLineChange_def fetchExistingOrders_def press_def oven_def blank_row_def
        Let_def)
  from machine_order_checks [of "[press, oven]" "''l1''" taken_1000 10000 None "Some some_user" some_user]
    taken_1000_facts fetched
  show ?thesis
    by simp
qed

section \<open>A machine the gateway rejects\<close>

lemma valid_machine_form_ok: "validateForm valid_machine_form = no_errors"
  using machine_PRESS_2
  by (simp add: valid_machine_form_state validateForm_def order_error_def trim_PRESS_2
      add_dialog_def mounted_def debouncedSearch_def initial_form_def no_errors_def)

lemma order_conflict_recognised:
  "err_code order_conflict = ''23505''
   \<and> includes_str (err_message order_conflict) ''machine_line_order_unique''"
  by code_simp

lemma other_rejection_not_recognised: "err_code other_rejection \<noteq> ''23505''"
  by code_simp

text \<open>
  C9. A signed-in user submits a machine form that passes \<^verbatim>\<open>validateForm\<close>, and the
  gateway rejects the insert or update. When the error has the code 23505 and its message
  contains \<^verbatim>\<open>machine_line_order_unique\<close>, the only changes of the state are the error
  "already used" on the order field and the request in the log: the modal, the form and
  the banner are as before. On every other error the banner is "Failed to save machine.
  Please try again.", again with the modal and the form as before.
\<close>

theorem machine_backend_rejection:
  assumes "validateForm s = no_errors"
  shows "machine_handleSubmit (Some err) (Some u) s =
    (if err_code err = ''23505'' \<and> includes_str (err_message err) ''machine_line_order_unique''
     then s\<lparr>validationErrors := no_errors\<lparr>err_order := Some msg_order_used\<rparr>,
            requests := requests s @ [mutation Machine (editing s) (formData s) u]\<rparr>
     else s\<lparr>validationErrors := no_errors,
            error := Some ''Failed to save machine. Please try again.'',
            requests := requests s @ [mutation Machine (editing s) (formData s) u]\<rparr>)"
  using assms by (simp add: machine_handleSubmit_def msg_failed_def noun_def Let_def)

theorem machine_backend_rejection_witness:
  "validateForm valid_machine_form = no_errors
   \<and> machine_handleSubmit (Some order_conflict) (Some some_user) valid_machine_form
     = valid_machine_form\<lparr>validationErrors := no_errors\<lparr>err_order := Some msg_order_used\<rparr>,
         requests := requests valid_machine_form
           @ [mutation Machine (editing valid_machine_form) (formData valid_machine_form) some_user]\<rparr>
   \<and> machine_handleSubmit (Some other_rejection) (Some some_user) valid_machine_form
     = valid_machine_form\<lparr>validationErrors := no_errors,
         error := Some ''Failed to save machine. Please try again.'',
         requests := requests valid_machine_form
           @ [mutation Machine (editing valid_machine_form) (formData valid_machine_form) some_user]\<rparr>"
  using machine_backend_rejection [OF valid_machine_form_ok, of order_conflict some_user]
    machine_backend_rejection [OF valid_machine_form_ok, of other_rejection some_user]
    valid_machine_form_ok order_conflict_recognised other_rejection_not_recognised
  by simp

section \<open>An order that is no number\<close>

lemma parseInt_examples:
  "parseInt [] = None" "parseInt ''abc'' = None" "parseInt ''0'' = Some 0"
  by code_simp+

text \<open>
  C10, as the claim states it, fails where 1000 is taken. The form is open to add a
  machine on a line that has a machine of order 1000: the fetched orders are \<^verbatim>\<open>[1000]\<close>,
  the order field holds the proposed 1001 and shows no error. The field is cleared: the
  order becomes 1000, and the order field shows the error "already used".
\<close>

theorem cleared_order_field_shows_error:
  "f_order (formData valid_machine_form) = 1001
   \<and> validationErrors valid_machine_form = no_errors
   \<and> f_order (formData (handleOrderChange [] valid_machine_form)) = 1000
   \<and> err_order (validationErrors (handleOrderChange [] valid_machine_form))
       = Some ''This order number is already used in the selected production line''"
  by (simp add: valid_machine_form_state handleOrderChange_def parseInt_examples order_error_def
      add_dialog_def mounted_def debouncedSearch_def initial_form_def no_errors_def
      msg_order_used_def)

text \<open>
  C10, amended. The empty string and \<^verbatim>\<open>abc\<close> parse to no number and \<^verbatim>\<open>0\<close> to zero. For
  every input that parses to no number or to zero the order of the form becomes 1000,
  and the order field is tested as for a typed 1000: the error "already used" when 1000
  is among the fetched orders and is not the order of the machine being edited, and no
  error otherwise. The input itself gets no error.
\<close>

theorem order_input_coerced:
  "parseInt [] = None \<and> parseInt ''abc'' = None \<and> parseInt ''0'' = Some 0
   \<and> (parseInt v = None \<or> parseInt v = Some 0 \<longrightarrow>
        f_order (formData (handleOrderChange v s)) = 1000
        \<and> err_order (validationErrors (handleOrderChange v s))
          = (if 1000 \<in> set (existingOrders s)
                \<and> (case editing s of None \<Rightarrow> True | Some m \<Rightarrow> row_order m \<noteq> 1000)
             then Some msg_order_used else None))"
  by (auto simp: parseInt_examples handleOrderChange_def order_error_def split: option.splits)

theorem order_input_coerced_witness:
  "parseInt [] = None
   \<and> f_order (formData (handleOrderChange [] valid_machine_form)) = 1000
   \<and> err_order (validationErrors (handleOrderChange [] valid_machine_form)) = Some msg_order_used"
  using order_input_coerced [of "[]" valid_machine_form]
  by (simp add: valid_machine_form_state add_dialog_def mounted_def debouncedSearch_def)

section \<open>The requests of a submit\<close>

lemma requests_saved: "requests (saved e s) = requests s"
  by (simp add: saved_def debouncedSearch_def handleCloseDialog_def Let_def)

lemma handleSubmit_requests:
  assumes "e \<noteq> Machine"
  shows "requests (handleSubmit e tbl answer usr s) = requests s @
    (case usr of
       None \<Rightarrow> []
     | Some u \<Rightarrow>
         if validateName e (f_name (formData s)) \<and> required_selected e (formData s)
         then PreCheck e (fst (precheck_of e s)) (snd (precheck_of e s))
              # (if maybeSingle tbl (fst (precheck_of e s)) (snd (precheck_of e s)) = None
                 then [mutation e (editing s) (formData s) u] else [])
         else [])"
  using assms
  by (auto simp: handleSubmit_def precheck_of_def Let_def requests_saved split: option.splits)

lemma machine_handleSubmit_requests:
  "requests (machine_handleSubmit answer usr s) = requests s @
    (case usr of
       None \<Rightarrow> []
     | Some u \<Rightarrow> if validateForm s = no_errors then [mutation Machine (editing s) (formData s) u] else [])"
  by (auto simp: machine_handleSubmit_def Let_def requests_saved split: option.splits)

section \<open>The names that are stored\<close>

lemma stored_name_mutation: "stored_name (mutation e ed f u) = Some (trim (f_name f))"
  by (simp add: stored_name_def mutation_def Let_def split: option.splits)

lemma stored_name_PreCheck: "stored_name (PreCheck e eqs neq) = None"
  by (simp add: stored_name_def)

lemma set_trim: "set (trim s) \<subseteq> set s"
proof -
  have "set (trim s) = set (dropWhile is_space (rev (dropWhile is_space s)))"
    by (simp add: trim_def)
  also have "\<dots> \<subseteq> set (rev (dropWhile is_space s))"
    by (meson set_dropWhileD subsetI)
  also have "\<dots> \<subseteq> set s"
    using set_dropWhileD by fastforce
  finally show ?thesis .
qed

lemma list_all_trim: "list_all P s \<Longrightarrow> list_all P (trim s)"
  using set_trim [of s] by (auto simp: list_all_iff)

lemma validateName_allowed:
  "e \<noteq> Kpi \<Longrightarrow> validateName e nm \<Longrightarrow> list_all (allowed e) nm"
  by (cases e) (auto simp: letters_spaces_def letters_digits_spaces_hyphens_def allowed_def list_all_iff)

lemma validateForm_name: "validateForm s = no_errors \<Longrightarrow> validateName Machine (f_name (formData s))"
  by (auto simp: validateForm_def no_errors_def split: if_splits)

lemma validateForm_name_nonempty: "validateForm s = no_errors \<Longrightarrow> trim (f_name (formData s)) \<noteq> []"
  by (auto simp: validateForm_def no_errors_def split: if_splits)

text \<open>
  C3, as the claim states it, fails for KPIs. In the KPI form the name \<^verbatim>\<open>Power factor\<close>
  is typed and stays as typed; a signed-in user submits, and the insert stores
  \<^verbatim>\<open>Power factor\<close>, which has small letters.
\<close>

theorem kpi_name_is_stored_as_typed:
  "f_name (formData kpi_form) = ''Power factor''
   \<and> sent_by kpi_form (handleSubmit Kpi [] None (Some some_user) kpi_form)
     = [PreCheck Kpi [(''name'', ''Power factor'')] None,
        Insert Kpi [(''name'', Str ''Power factor''), (''unit'', Str ''%''), (''created_by'', Str ''u1'')]]
   \<and> stored_name (Insert Kpi [(''name'', Str ''Power factor''), (''unit'', Str ''%''),
        (''created_by'', Str ''u1'')]) = Some ''Power factor''
   \<and> \<not> list_all (allowed Kpi) ''Power factor''"
  by code_simp

text \<open>
  C3, amended. Every name that a submit of any of the eight controllers stores by an
  insert or update is the trimmed name of the form. For every controller but the one of
  KPIs it consists of capital letters and white space (every character of the class
  \<^verbatim>\<open>\s\<close>, not the space alone), and for lines and machines also of digits and hyphens.
  The names of KPIs and machines are not empty.
\<close>

theorem stored_names_match_pattern:
  assumes "rq \<in> set (sent_by s (handleSubmit e tbl answer usr s))"
    and "stored_name rq = Some nm"
  shows "nm = trim (f_name (formData s))
    \<and> (e \<noteq> Kpi \<longrightarrow> list_all (allowed e) nm)
    \<and> (e = Kpi \<or> e = Machine \<longrightarrow> nm \<noteq> [])"
proof (cases "e = Machine")
  case True
  with assms have rq: "rq = mutation Machine (editing s) (formData s) (the usr)"
    and ok: "validateForm s = no_errors"
    by (auto simp: sent_by_def handleSubmit_def machine_handleSubmit_requests split: option.splits if_splits)
  from rq assms(2) have nm: "nm = trim (f_name (formData s))"
    by (simp add: stored_name_mutation)
  from ok have "list_all (allowed Machine) (f_name (formData s))"
    using validateName_allowed [OF _ validateForm_name [OF ok]] by simp
  then have "list_all (allowed Machine) nm"
    unfolding nm by (rule list_all_trim)
  with True nm validateForm_name_nonempty [OF ok] show ?thesis by simp
next
  case False
  with assms have rq: "rq = mutation e (editing s) (formData s) (the usr)"
    and ok: "validateName e (f_name (formData s))" and req: "required_selected e (formData s)"
    by (auto simp: sent_by_def handleSubmit_requests stored_name_PreCheck split: option.splits if_splits)
  from rq assms(2) have nm: "nm = trim (f_name (formData s))"
    by (simp add: stored_name_mutation)
  have a: "e \<noteq> Kpi \<longrightarrow> list_all (allowed e) nm"
    unfolding nm using ok by (auto intro: list_all_trim validateName_allowed)
  have b: "e = Kpi \<longrightarrow> nm \<noteq> []"
    using req nm by (auto simp: required_selected_def)
  from False nm a b show ?thesis by simp
qed


theorem stored_names_match_pattern_witness:
  "Insert City [(''name'', Str ''SPRINGFIELD''), (''country_id'', Str ''ca''), (''created_by'', Str ''u1'')]
     \<in> set (sent_by (city_form ''  SPRINGFIELD '' ''ca'')
         (handleSubmit City [springfield] None (Some some_user) (city_form ''  SPRINGFIELD '' ''ca'')))
   \<and> stored_name (Insert City [(''name'', Str ''SPRINGFIELD''), (''country_id'', Str ''ca''),
        (''created_by'', Str ''u1'')]) = Some ''SPRINGFIELD''
   \<and> ''SPRINGFIELD'' = trim (f_name (formData (city_form ''  SPRINGFIELD '' ''ca'')))
   \<and> list_all (allowed City) ''SPRINGFIELD''"
proof -
  have a: "Insert City [(''name'', Str ''SPRINGFIELD''), (''country_id'', Str ''ca''), (''created_by'', Str ''u1'')]
     \<in> set (sent_by (city_form ''  SPRINGFIELD '' ''ca'')
         (handleSubmit City [springfield] None (Some some_user) (city_form ''  SPRINGFIELD '' ''ca'')))"
    by code_simp
  have b: "stored_name (Insert City [(''name'', Str ''SPRINGFIELD''), (''country_id'', Str ''ca''),
        (''created_by'', Str ''u1'')]) = Some ''SPRINGFIELD''"
    by code_simp
  have c: "''SPRINGFIELD'' = trim (f_name (formData (city_form ''  SPRINGFIELD '' ''ca'')))
    \<and> (City \<noteq> Kpi \<longrightarrow> list_all (allowed City) ''SPRINGFIELD'')
    \<and> (City = Kpi \<or> City = Machine \<longrightarrow> ''SPRINGFIELD'' \<noteq> [])"
    by (rule stored_names_match_pattern [OF a b])
  from c have c1: "''SPRINGFIELD'' = trim (f_name (formData (city_form ''  SPRINGFIELD '' ''ca'')))"
    by (rule conjunct1)
  from c have "City \<noteq> Kpi \<longrightarrow> list_all (allowed City) ''SPRINGFIELD''"
    by (rule conjunct1 [OF conjunct2])
  then have c2: "list_all (allowed City) ''SPRINGFIELD''"
    by simp
  from a b c1 c2 show ?thesis
    by (intro conjI)
qed


section \<open>The pre-check of a city\<close>











section \<open>The answer of the gateway to a list query\<close>

lemmas char_defs = wildcard_def ci_eq_def lower_code_def code_def is_upper_def backslash_def

lemmas gateway_defs = gateway_list_def filtered_def ordered_def sort_by_def row_le_def col_def
  char_defs

lemmas list_defs = run_def step_def advance_def handleSearchChange_def search_effect_def deps_def
  debouncedSearch_def cancel_def receive_def mounted_def build_query_def

lemma length_insort_by: "length (insort_by le x xs) = Suc (length xs)"
  by (induction xs) simp_all

lemma length_sort_by: "length (sort_by le xs) = length xs"
  by (induction xs) (simp_all add: sort_by_def length_insort_by)

lemma set_insort_by: "set (insort_by le x xs) = insert x (set xs)"
  by (induction xs) auto

lemma set_sort_by: "set (sort_by le xs) = set xs"
  by (induction xs) (simp_all add: sort_by_def set_insort_by)

lemma length_ordered: "length (ordered tbl q) = length (filtered tbl q)"
  by (simp add: ordered_def length_sort_by)

lemma set_ordered: "set (ordered tbl q) = set (filtered tbl q)"
  by (simp add: ordered_def set_sort_by)

lemma set_window: "set (take n (drop m xs)) \<subseteq> set xs"
  by (meson set_take_subset set_drop_subset subset_trans)

lemma answer_rows_match:
  assumes "q_ilike q = Some p" and "r \<in> set (the (data (gateway_list tbl q)))"
  shows "like_match p (row_name r)"
proof -
  from assms(2) have "r \<in> set (ordered tbl q)"
    using set_window by (fastforce simp: gateway_list_def)
  then have "r \<in> set (filtered tbl q)"
    by (simp add: set_ordered)
  with assms(1) show ?thesis
    by (simp add: filtered_def)
qed


lemma answers:
  "gateway_list three_cities q_all
     = \<lparr>data = Some [ankara, antalya, springfield], count = Some 3, failure = None\<rparr>"
  "gateway_list three_cities q_an = \<lparr>data = Some [ankara, antalya], count = Some 2, failure = None\<rparr>"
  "gateway_list three_cities q_ank = \<lparr>data = Some [ankara], count = Some 1, failure = None\<rparr>"
  "gateway_list [acme] q_percent = \<lparr>data = Some [acme], count = Some 1, failure = None\<rparr>"
  by (simp_all add: gateway_defs three_cities_def q_all_def q_ank_def q_an_def q_percent_def
      build_query_def mounted_def debouncedSearch_def ankara_def antalya_def springfield_def
      acme_def blank_row_def)

section \<open>The page of a list query\<close>

lemma last_page_of_47:
  assumes "length xs = 47"
  shows "take 15 (drop 45 xs) = [xs ! 45, xs ! 46]"
proof -
  have a: "drop 45 xs = xs ! 45 # drop 46 xs"
    using assms Cons_nth_drop_Suc [of 45 xs] by simp
  have b: "drop 46 xs = xs ! 46 # drop 47 xs"
    using assms Cons_nth_drop_Suc [of 46 xs] by simp
  have c: "drop 47 xs = []"
    using assms by simp
  show ?thesis by (simp add: a b c)
qed

lemma window_of_query:
  "nat (q_to (build_query e term s) - q_from (build_query e term s) + 1) = rowsPerPage s"
  "nat (q_from (build_query e term s)) = page s * rowsPerPage s"
proof -
  have "int ((page s + 1) * rowsPerPage s) - 1 - int (page s * rowsPerPage s) + 1 = int (rowsPerPage s)"
    by (simp add: algebra_simps)
  then show "nat (q_to (build_query e term s) - q_from (build_query e term s) + 1) = rowsPerPage s"
    by (simp only: build_query_def list_query.simps nat_int)
  show "nat (q_from (build_query e term s)) = page s * rowsPerPage s"
    by (simp only: build_query_def list_query.simps nat_int)
qed

text \<open>
  C4. The query that a controller builds for a page asks for the rows from position
  \<^verbatim>\<open>page * rowsPerPage\<close> to position \<^verbatim>\<open>(page + 1) * rowsPerPage - 1\<close>. The gateway
  answers with the rows at these positions of the filtered rows in the order asked for,
  a rearrangement of the filtered rows, and with the number of all filtered rows. With
  47 filtered rows, page size 15 and page 3 these are the two rows at the positions 45
  and 46, and the count is 47. When the answer arrives, the table shows these rows and
  this count.
\<close>

theorem page_window:
  "q_from (build_query e term s) = int (page s * rowsPerPage s)
   \<and> q_to (build_query e term s) = int ((page s + 1) * rowsPerPage s) - 1
   \<and> data (gateway_list tbl (build_query e term s))
       = Some (take (rowsPerPage s) (drop (page s * rowsPerPage s) (ordered tbl (build_query e term s))))
   \<and> count (gateway_list tbl (build_query e term s)) = Some (length (filtered tbl (build_query e term s)))
   \<and> length (ordered tbl (build_query e term s)) = length (filtered tbl (build_query e term s))
   \<and> set (ordered tbl (build_query e term s)) = set (filtered tbl (build_query e term s))
   \<and> (length (filtered tbl (build_query e term s)) = 47 \<and> rowsPerPage s = 15 \<and> page s = 3 \<longrightarrow>
        data (gateway_list tbl (build_query e term s))
          = Some [ordered tbl (build_query e term s) ! 45, ordered tbl (build_query e term s) ! 46]
        \<and> count (gateway_list tbl (build_query e term s)) = Some 47)
   \<and> (build_query e term s \<in> set (inflight s') \<longrightarrow>
        rows (receive e (build_query e term s) (gateway_list tbl (build_query e term s)) s')
          = the (data (gateway_list tbl (build_query e term s)))
        \<and> totalCount (receive e (build_query e term s) (gateway_list tbl (build_query e term s)) s')
          = length (filtered tbl (build_query e term s)))"
proof -
  let ?q = "build_query e term s"
  have a: "q_from ?q = int (page s * rowsPerPage s) \<and> q_to ?q = int ((page s + 1) * rowsPerPage s) - 1"
    by (simp add: build_query_def)
  have b: "data (gateway_list tbl ?q)
      = Some (take (rowsPerPage s) (drop (page s * rowsPerPage s) (ordered tbl ?q)))"
    by (simp add: gateway_list_def window_of_query)
  have c: "count (gateway_list tbl ?q) = Some (length (filtered tbl ?q))"
    by (simp add: gateway_list_def)
  have d: "length (filtered tbl ?q) = 47 \<and> rowsPerPage s = 15 \<and> page s = 3 \<longrightarrow>
        data (gateway_list tbl ?q) = Some [ordered tbl ?q ! 45, ordered tbl ?q ! 46]
        \<and> count (gateway_list tbl ?q) = Some 47"
  proof
    assume h: "length (filtered tbl ?q) = 47 \<and> rowsPerPage s = 15 \<and> page s = 3"
    then have "length (ordered tbl ?q) = 47" by (simp add: length_ordered)
    then have "take 15 (drop 45 (ordered tbl ?q)) = [ordered tbl ?q ! 45, ordered tbl ?q ! 46]"
      by (rule last_page_of_47)
    with h b c show "data (gateway_list tbl ?q) = Some [ordered tbl ?q ! 45, ordered tbl ?q ! 46]
        \<and> count (gateway_list tbl ?q) = Some 47"
      by simp
  qed
  have f: "?q \<in> set (inflight s') \<longrightarrow>
        rows (receive e ?q (gateway_list tbl ?q) s') = the (data (gateway_list tbl ?q))
        \<and> totalCount (receive e ?q (gateway_list tbl ?q) s') = length (filtered tbl ?q)"
    by (simp add: receive_def gateway_list_def Let_def)
  from a b c d f length_ordered [of tbl ?q] set_ordered [of tbl ?q] show ?thesis
    by blast
qed



lemma row_name_city_named: "row_name (city_named nm) = nm"
  by (simp add: city_named_def)

lemma cities_47_length: "length (filtered cities_47 (build_query City [] page_3)) = 47"
  by (simp add: filtered_def build_query_def cities_47_def names_47_def)

lemma page_3_facts: "rowsPerPage page_3 = 15" "page page_3 = 3"
  by (simp_all add: page_3_def mounted_def debouncedSearch_def)

lemma cities_47_sorted:
  "ordered cities_47 (build_query City [] page_3) = map city_named
    [''AA'', ''AB'', ''AC'', ''AD'', ''AE'', ''AF'', ''AG'', ''AH'', ''AI'', ''AJ'',
      ''AK'', ''AL'', ''AM'', ''AN'', ''AO'', ''AP'', ''AQ'', ''AR'', ''AS'', ''AT'',
      ''AU'', ''AV'', ''AW'', ''AX'', ''AY'', ''AZ'', ''BA'', ''BB'', ''BC'', ''BD'',
      ''BE'', ''BF'', ''BG'', ''BH'', ''BI'', ''BJ'', ''BK'', ''BL'', ''BM'', ''BN'',
      ''BO'', ''BP'', ''BQ'', ''BR'', ''BS'', ''BT'', ''BU'']"
  by (simp add: ordered_def filtered_def sort_by_def row_le_def col_def cities_47_def names_47_def
      page_3_def build_query_def mounted_def debouncedSearch_def row_name_city_named code_def)

theorem page_window_witness:
  "length (filtered cities_47 (build_query City [] page_3)) = 47
   \<and> rowsPerPage page_3 = 15 \<and> page page_3 = 3
   \<and> q_from (build_query City [] page_3) = 45 \<and> q_to (build_query City [] page_3) = 59
   \<and> data (gateway_list cities_47 (build_query City [] page_3))
       = Some [city_named ''BT'', city_named ''BU'']
   \<and> count (gateway_list cities_47 (build_query City [] page_3)) = Some 47"
proof -
  let ?q = "build_query City [] page_3"
  note pw = page_window [of City "[]" page_3 cities_47 page_3]
  from pw have range: "q_from ?q = int (page page_3 * rowsPerPage page_3)
      \<and> q_to ?q = int ((page page_3 + 1) * rowsPerPage page_3) - 1"
    by blast
  from pw cities_47_length page_3_facts
  have "data (gateway_list cities_47 ?q) = Some [ordered cities_47 ?q ! 45, ordered cities_47 ?q ! 46]
      \<and> count (gateway_list cities_47 ?q) = Some 47"
    by blast
  then have page: "data (gateway_list cities_47 ?q) = Some [city_named ''BT'', city_named ''BU'']
      \<and> count (gateway_list cities_47 ?q) = Some 47"
    by (simp add: cities_47_sorted)
  from range have "q_from ?q = 45 \<and> q_to ?q = 59"
    by (simp add: page_3_facts)
  with page cities_47_length page_3_facts show ?thesis
    by blast
qed

section \<open>Keystrokes within the wait of the debounced search\<close>

text \<open>
  Containment as defined above is containment of a run of the name that equals the term
  up to case.
\<close>

lemma starts_ci_iff: "starts_ci t s = (\<exists>mid post. s = mid @ post \<and> list_all2 ci_eq t mid)"
proof (induction t s rule: starts_ci.induct)
  case (1 s)
  then show ?case by simp
next
  case (2 p ps)
  then show ?case by (simp add: list_all2_Cons1)
next
  case (3 p ps c cs)
  show ?case
  proof
    assume "starts_ci (p # ps) (c # cs)"
    then have pc: "ci_eq p c" and "starts_ci ps cs" by simp_all
    with 3 obtain mid post where "cs = mid @ post" "list_all2 ci_eq ps mid" by auto
    with pc have "c # cs = (c # mid) @ post \<and> list_all2 ci_eq (p # ps) (c # mid)" by simp
    then show "\<exists>mid post. c # cs = mid @ post \<and> list_all2 ci_eq (p # ps) mid" by blast
  next
    assume "\<exists>mid post. c # cs = mid @ post \<and> list_all2 ci_eq (p # ps) mid"
    then obtain mid post where m: "c # cs = mid @ post" "list_all2 ci_eq (p # ps) mid" by blast
    from m(2) obtain d mid' where mid: "mid = d # mid'" "ci_eq p d" "list_all2 ci_eq ps mid'"
      by (auto simp: list_all2_Cons1)
    with m(1) have "c = d" "cs = mid' @ post" by simp_all
    with mid 3 show "starts_ci (p # ps) (c # cs)" by auto
  qed
qed

lemma contains_ci_iff:
  "contains_ci s t = (\<exists>pre mid post. s = pre @ mid @ post \<and> list_all2 ci_eq t mid)"
proof (induction s)
  case Nil
  then show ?case by (auto simp: starts_ci_iff)
next
  case (Cons c cs)
  show ?case
  proof
    assume "contains_ci (c # cs) t"
    then consider "starts_ci t (c # cs)" | "contains_ci cs t" by auto
    then show "\<exists>pre mid post. c # cs = pre @ mid @ post \<and> list_all2 ci_eq t mid"
    proof cases
      case 1
      then obtain mid post where "c # cs = [] @ mid @ post" "list_all2 ci_eq t mid"
        by (auto simp: starts_ci_iff)
      then show ?thesis by blast
    next
      case 2
      with Cons obtain pre mid post where "cs = pre @ mid @ post" "list_all2 ci_eq t mid" by auto
      then have "c # cs = (c # pre) @ mid @ post \<and> list_all2 ci_eq t mid" by simp
      then show ?thesis by blast
    qed
  next
    assume "\<exists>pre mid post. c # cs = pre @ mid @ post \<and> list_all2 ci_eq t mid"
    then obtain pre mid post where h: "c # cs = pre @ mid @ post" "list_all2 ci_eq t mid" by blast
    show "contains_ci (c # cs) t"
    proof (cases pre)
      case Nil
      with h have "starts_ci t (c # cs)" by (auto simp: starts_ci_iff)
      then show ?thesis by simp
    next
      case (Cons d pre')
      with h have "cs = pre' @ mid @ post" by simp
      with h(2) Cons.IH have "contains_ci cs t" by blast
      then show ?thesis by simp
    qed
  qed
qed

lemma wildcard_percent: "wildcard CHR ''%''"
  by (simp add: wildcard_def)

lemma like_percent: "like_match ''%'' s"
  by (induction s) (simp_all add: wildcard_percent)

lemma like_plain_prefix: "plain t \<Longrightarrow> like_match (t @ ''%'') s = starts_ci t s"
proof (induction t arbitrary: s)
  case Nil
  then show ?case by (simp add: like_percent)
next
  case (Cons p ps)
  then have p: "\<not> wildcard p" "p \<noteq> CHR ''_''" "p \<noteq> backslash" and ps: "plain ps"
    by (simp_all add: plain_def)
  show ?case
  proof (cases s)
    case Nil
    with p show ?thesis by simp
  next
    case (Cons c cs)
    with p Cons.IH [OF ps] show ?thesis by simp
  qed
qed

lemma like_contains: "plain t \<Longrightarrow> like_match (CHR ''%'' # t @ ''%'') s = contains_ci s t"
proof (induction s)
  case Nil
  then show ?case
    using like_plain_prefix [of t "[]"] by (simp add: wildcard_percent)
next
  case (Cons c cs)
  then show ?case
    using like_plain_prefix [of t "c # cs"] by (simp add: wildcard_percent)
qed

lemma build_query_cong:
  "orderBy s = orderBy s' \<Longrightarrow> order s = order s' \<Longrightarrow> page s = page s' \<Longrightarrow>
   rowsPerPage s = rowsPerPage s' \<Longrightarrow> build_query e v s = build_query e v s'"
  by (simp add: build_query_def)

lemma typed_first:
  "v \<noteq> searchTerm s \<Longrightarrow>
   step e (t, SearchChange v) s =
     (advance t s)\<lparr>searchTerm := v, page := 0, timer := Some (t + 300, build_query e v (s\<lparr>page := 0\<rparr>))\<rparr>"
proof -
  assume v: "v \<noteq> searchTerm s"
  have a: "searchTerm (advance t s) = searchTerm s" "now (advance t s) = t"
    "orderBy (advance t s) = orderBy s" "order (advance t s) = order s"
    "rowsPerPage (advance t s) = rowsPerPage s"
    by (simp_all add: advance_def split: option.splits)
  have q: "build_query e v ((advance t s)\<lparr>searchTerm := v, page := 0, timer := None\<rparr>) = build_query e v (s\<lparr>page := 0\<rparr>)"
    by (rule build_query_cong) (simp_all add: a)
  show ?thesis
    using v by (simp add: step_def handleSearchChange_def search_effect_def deps_def a
        debouncedSearch_def cancel_def q)
qed

lemma advance_waiting:
  "timer s = Some (due, q) \<Longrightarrow> t < due \<Longrightarrow> advance t s = s\<lparr>now := t\<rparr>"
  by (simp add: advance_def)

lemma advance_due:
  "timer s = Some (due, q) \<Longrightarrow> due \<le> t \<Longrightarrow>
   advance t s = s\<lparr>now := t, timer := None, loading := True, inflight := inflight s @ [q],
     requests := requests s @ [ListRows q]\<rparr>"
  by (simp add: advance_def)

lemma three_keystrokes:
  assumes "a \<noteq> searchTerm s" "b \<noteq> a" "c \<noteq> b" "t2 < t1 + 300" "t3 < t2 + 300" "t3 + 300 \<le> T"
  shows "requests (run e [(t1, SearchChange a), (t2, SearchChange b), (t3, SearchChange c), (T, Tick)] s)
       = requests (advance t1 s) @ [ListRows (build_query e c (s\<lparr>page := 0\<rparr>))]"
proof -
  define s1 where "s1 = step e (t1, SearchChange a) s"
  define s2 where "s2 = step e (t2, SearchChange b) s1"
  define s3 where "s3 = step e (t3, SearchChange c) s2"
  have s1: "s1 = (advance t1 s)\<lparr>searchTerm := a, page := 0,
      timer := Some (t1 + 300, build_query e a (s\<lparr>page := 0\<rparr>))\<rparr>"
    unfolding s1_def using assms(1) by (rule typed_first)
  have adv2: "advance t2 s1 = s1\<lparr>now := t2\<rparr>"
    by (rule advance_waiting [where due = "t1 + 300"]) (simp_all add: s1 assms)
  have s2: "s2 = (advance t2 s1)\<lparr>searchTerm := b, page := 0,
      timer := Some (t2 + 300, build_query e b (s1\<lparr>page := 0\<rparr>))\<rparr>"
    unfolding s2_def by (rule typed_first) (simp add: s1 assms)
  have adv3: "advance t3 s2 = s2\<lparr>now := t3\<rparr>"
    by (rule advance_waiting [where due = "t2 + 300"]) (simp_all add: s2 assms)
  have s3: "s3 = (advance t3 s2)\<lparr>searchTerm := c, page := 0,
      timer := Some (t3 + 300, build_query e c (s2\<lparr>page := 0\<rparr>))\<rparr>"
    unfolding s3_def by (rule typed_first) (simp add: s2 assms)
  have adv1: "orderBy (advance t1 s) = orderBy s" "order (advance t1 s) = order s"
    "rowsPerPage (advance t1 s) = rowsPerPage s"
    by (simp_all add: advance_def split: option.splits)
  have f1: "orderBy s1 = orderBy s" "order s1 = order s" "rowsPerPage s1 = rowsPerPage s"
    "requests s1 = requests (advance t1 s)"
    by (simp_all add: s1 adv1)
  have f2: "orderBy s2 = orderBy s1" "order s2 = order s1" "rowsPerPage s2 = rowsPerPage s1"
    "requests s2 = requests s1"
    by (simp_all add: s2 adv2)
  have q: "build_query e c (s2\<lparr>page := 0\<rparr>) = build_query e c (s\<lparr>page := 0\<rparr>)"
    by (rule build_query_cong) (simp_all add: f1 f2)
  have r3: "requests s3 = requests (advance t1 s)"
    by (simp add: s3 adv3 f2 f1)
  have t3: "timer s3 = Some (t3 + 300, build_query e c (s\<lparr>page := 0\<rparr>))"
    by (simp add: s3 q)
  have "requests (step e (T, Tick) s3) = requests s3 @ [ListRows (build_query e c (s\<lparr>page := 0\<rparr>))]"
    using advance_due [OF t3 assms(6)] by (simp add: step_def)
  moreover have "run e [(t1, SearchChange a), (t2, SearchChange b), (t3, SearchChange c), (T, Tick)] s
      = step e (T, Tick) s3"
    by (simp add: run_def s1_def s2_def s3_def)
  ultimately show ?thesis
    by (simp only: r3)
qed


text \<open>Only an answer of the gateway changes the rows of the table.\<close>

lemma rows_advance: "rows (advance t s) = rows s"
  by (simp add: advance_def split: option.splits)

lemma rows_search_effect: "rows (search_effect e prev s) = rows s"
  by (simp add: search_effect_def debouncedSearch_def cancel_def)

lemma rows_step: "\<not> is_answer (snd te) \<Longrightarrow> rows (step e te s) = rows s"
  by (cases "snd te")
    (simp_all add: step_def handleSearchChange_def handleSort_def handleChangePage_def
      handleChangeRowsPerPage_def rows_search_effect rows_advance Let_def)

lemma rows_run: "list_all (\<lambda>te. \<not> is_answer (snd te)) evs \<Longrightarrow> rows (run e evs s) = rows s"
proof (induction evs arbitrary: s)
  case Nil
  then show ?case by (simp add: run_def)
next
  case (Cons te evs)
  then have "rows (run e evs (step e te s)) = rows (step e te s)" by simp
  moreover from Cons.prems have "rows (step e te s) = rows s" by (simp add: rows_step)
  ultimately show ?case by (simp add: run_def)
qed

text \<open>
  C5, as the claim states it, fails for a term with a wildcard. In the company list the
  term \<^verbatim>\<open>%\<close> is typed; the query is sent with the pattern \<^verbatim>\<open>%%%\<close>, the gateway answers
  with the company \<^verbatim>\<open>ACME\<close>, and the table shows it, though \<^verbatim>\<open>ACME\<close> does not contain \<^verbatim>\<open>%\<close>.
\<close>

theorem percent_shows_every_row:
  "requests (run Company [(1000, SearchChange ''%''), (1300, Tick),
       (1400, Response q_percent (gateway_list [acme] q_percent))] (mounted Company))
     = [ListRows (build_query Company [] (mounted Company)), ListRows q_percent]
   \<and> q_ilike q_percent = Some ''%%%''
   \<and> rows (run Company [(1000, SearchChange ''%''), (1300, Tick),
       (1400, Response q_percent (gateway_list [acme] q_percent))] (mounted Company)) = [acme]
   \<and> row_name acme = ''ACME''
   \<and> \<not> contains_ci ''ACME'' ''%''"
  unfolding answers
  by (simp add: list_defs q_percent_def acme_def blank_row_def char_defs)

text \<open>
  C5, amended. Three changes of the search term, each less than 300 ms after the one
  before, followed by 300 ms without a change, add exactly one list query to the
  queries sent before the first change, built from the last term and the first page.
  With a term that is not empty the query carries the pattern \<^verbatim>\<open>%term%\<close>. When the term
  is plain (none of \<^verbatim>\<open>%\<close>, \<^verbatim>\<open>*\<close>, \<^verbatim>\<open>_\<close> and the backslash occurs in it), every row that
  the answer to this query puts in the table has a name that contains the term
  case-insensitively, and these stay the rows of the table through every change of the
  term, the sort, the page and the page size and every passing of time, until the next
  answer of the gateway arrives. Nothing is said of the table after that: the next
  answer may be the late answer to an earlier query.
\<close>

theorem three_keystrokes_one_query:
  "(a \<noteq> searchTerm s \<and> b \<noteq> a \<and> c \<noteq> b \<and> t2 < t1 + 300 \<and> t3 < t2 + 300 \<and> t3 + 300 \<le> T \<longrightarrow>
      requests (run e [(t1, SearchChange a), (t2, SearchChange b), (t3, SearchChange c), (T, Tick)] s)
        = requests (advance t1 s) @ [ListRows (build_query e c (s\<lparr>page := 0\<rparr>))])
   \<and> (c \<noteq> [] \<longrightarrow> q_ilike (build_query e c s) = Some (CHR ''%'' # c @ ''%''))
   \<and> (c \<noteq> [] \<and> plain c \<and> build_query e c s \<in> set (inflight s')
        \<and> list_all (\<lambda>te. \<not> is_answer (snd te)) evs \<longrightarrow>
        (\<forall>r\<in>set (rows (run e evs
                  (receive e (build_query e c s) (gateway_list tbl (build_query e c s)) s'))).
           contains_ci (row_name r) c))"
proof -
  let ?q = "build_query e c s"
  have one: "a \<noteq> searchTerm s \<and> b \<noteq> a \<and> c \<noteq> b \<and> t2 < t1 + 300 \<and> t3 < t2 + 300 \<and> t3 + 300 \<le> T \<longrightarrow>
      requests (run e [(t1, SearchChange a), (t2, SearchChange b), (t3, SearchChange c), (T, Tick)] s)
        = requests (advance t1 s) @ [ListRows (build_query e c (s\<lparr>page := 0\<rparr>))]"
    using three_keystrokes [of a s b c t2 t1 t3 T e] by blast
  have pat: "c \<noteq> [] \<longrightarrow> q_ilike ?q = Some (CHR ''%'' # c @ ''%'')"
    by (simp add: build_query_def)
  have shown: "c \<noteq> [] \<and> plain c \<and> ?q \<in> set (inflight s')
        \<and> list_all (\<lambda>te. \<not> is_answer (snd te)) evs \<longrightarrow>
        (\<forall>r\<in>set (rows (run e evs (receive e ?q (gateway_list tbl ?q) s'))).
           contains_ci (row_name r) c)"
  proof (intro impI ballI)
    fix r
    assume h: "c \<noteq> [] \<and> plain c \<and> ?q \<in> set (inflight s')
        \<and> list_all (\<lambda>te. \<not> is_answer (snd te)) evs"
      and r: "r \<in> set (rows (run e evs (receive e ?q (gateway_list tbl ?q) s')))"
    from h have "rows (run e evs (receive e ?q (gateway_list tbl ?q) s'))
        = rows (receive e ?q (gateway_list tbl ?q) s')"
      by (simp add: rows_run)
    moreover from h have "rows (receive e ?q (gateway_list tbl ?q) s') = the (data (gateway_list tbl ?q))"
      by (simp add: receive_def gateway_list_def Let_def)
    ultimately have "r \<in> set (the (data (gateway_list tbl ?q)))" using r by simp
    moreover from h pat have "q_ilike ?q = Some (CHR ''%'' # c @ ''%'')" by simp
    ultimately have "like_match (CHR ''%'' # c @ ''%'') (row_name r)"
      using answer_rows_match by blast
    with h show "contains_ci (row_name r) c"
      by (simp add: like_contains)
  qed
  from one pat shown show ?thesis by blast
qed


lemma typing_facts:
  "''A'' \<noteq> searchTerm (mounted City)" "''AN'' \<noteq> ''A''" "''ANK'' \<noteq> ''AN''"
  "(1100::nat) < 1000 + 300" "(1200::nat) < 1100 + 300" "(1200::nat) + 300 \<le> 1500"
  "''ANK'' \<noteq> []" "plain ''ANK''"
  by (simp_all add: mounted_def debouncedSearch_def plain_def char_defs)

lemma typing_sent:
  "requests (advance 1000 (mounted City)) = [ListRows q_all]"
  "build_query City ''ANK'' ((mounted City)\<lparr>page := 0\<rparr>) = q_ank"
  "q_ank \<in> set (inflight (run City typing (mounted City)))"
  by (simp_all add: typing_def list_defs q_all_def q_ank_def)

lemma typing_on:
  "list_all (\<lambda>te. \<not> is_answer (snd te)) [(1700, SearchChange ''ANKA''), (2100, Tick)]"
  by simp

theorem three_keystrokes_one_query_witness:
  "''A'' \<noteq> searchTerm (mounted City) \<and> ''AN'' \<noteq> ''A'' \<and> ''ANK'' \<noteq> ''AN''
   \<and> (1100::nat) < 1000 + 300 \<and> (1200::nat) < 1100 + 300 \<and> (1200::nat) + 300 \<le> 1500
   \<and> requests (run City typing (mounted City)) = [ListRows q_all, ListRows q_ank]
   \<and> q_ilike q_ank = Some ''%ANK%''
   \<and> plain ''ANK''
   \<and> q_ank \<in> set (inflight (run City typing (mounted City)))
   \<and> list_all (\<lambda>te. \<not> is_answer (snd te)) [(1700, SearchChange ''ANKA''), (2100, Tick)]
   \<and> rows (receive City q_ank (gateway_list three_cities q_ank) (run City typing (mounted City)))
       = [ankara]
   \<and> rows (run City [(1700, SearchChange ''ANKA''), (2100, Tick)]
        (receive City q_ank (gateway_list three_cities q_ank) (run City typing (mounted City))))
       = [ankara]
   \<and> contains_ci (row_name ankara) ''ANK''"
proof -
  note w = three_keystrokes_one_query [of "''A''" "mounted City" "''AN''" "''ANK''" 1100 1000 1200 1500
      City "run City typing (mounted City)" "[(1700, SearchChange ''ANKA''), (2100, Tick)]" three_cities]
  from w typing_facts
  have sent: "requests (run City [(1000, SearchChange ''A''), (1100, SearchChange ''AN''),
        (1200, SearchChange ''ANK''), (1500, Tick)] (mounted City))
      = requests (advance 1000 (mounted City)) @ [ListRows (build_query City ''ANK'' ((mounted City)\<lparr>page := 0\<rparr>))]"
    by blast
  then have one: "requests (run City typing (mounted City)) = [ListRows q_all, ListRows q_ank]"
    by (simp only: typing_def typing_sent append.simps)
  have same: "build_query City ''ANK'' (mounted City) = q_ank"
    by (simp add: q_ank_def)
  from w typing_facts(7) have pat: "q_ilike q_ank = Some ''%ANK%''"
    unfolding same by simp
  have shown: "rows (receive City q_ank (gateway_list three_cities q_ank) (run City typing (mounted City)))
       = [ankara]"
    using typing_sent(3) by (simp add: receive_def answers Let_def)
  have later: "rows (run City [(1700, SearchChange ''ANKA''), (2100, Tick)]
        (receive City q_ank (gateway_list three_cities q_ank) (run City typing (mounted City))))
       = [ankara]"
    using rows_run [OF typing_on] shown by simp
  from w typing_facts(7,8) typing_sent(3) typing_on
  have "\<forall>r\<in>set (rows (run City [(1700, SearchChange ''ANKA''), (2100, Tick)]
        (receive City q_ank (gateway_list three_cities q_ank) (run City typing (mounted City))))).
      contains_ci (row_name r) ''ANK''"
    unfolding same by blast
  then have "contains_ci (row_name ankara) ''ANK''"
    unfolding later by simp
  with one pat shown later typing_facts typing_sent(3) typing_on show ?thesis
    by blast
qed


section \<open>Answers that cross\<close>















end
